theory Spec2Isabelle
  imports Complex_Main "HOL-Library.Log_Nat"
begin

section \<open>JavaScript values used by the three engines\<close>

text \<open>
  A JavaScript \<^verbatim>\<open>Date\<close> is its time value, an integer number of milliseconds. The
  local time zone is taken to be a fixed offset from UTC and is folded into the epoch, so
  that the local calendar day of an instant is its quotient by the length of a day. Day 0
  (1 January 1970) was a Thursday, \<^verbatim>\<open>getDay() = 4\<close>.
  A JavaScript number is an IEEE 754 double. The availability engine only counts, with
  integers far below \<open>2 ^ 53\<close>, which doubles hold exactly, and its numbers are integers
  here. The triage scorer divides and multiplies: its arithmetic is that of doubles, given
  below. Infinities and the smallest, subnormal doubles are not represented; the
  quantities of this development are far from both.
\<close>

type_synonym Date = int

definition msPerDay :: int where
  "msPerDay = 86400000"

definition getDay :: "Date \<Rightarrow> int" where
  "getDay d = (d div msPerDay + 4) mod 7"

definition setHours :: "Date \<Rightarrow> int \<Rightarrow> int \<Rightarrow> int \<Rightarrow> int \<Rightarrow> Date" where
  "setHours d h m s ms = (d div msPerDay) * msPerDay + ((h * 60 + m) * 60 + s) * 1000 + ms"

text \<open>\<^verbatim>\<open>Math.round\<close> rounds to the nearest integer, a half upwards.\<close>

definition Math_round :: "real \<Rightarrow> int" where
  "Math_round x = \<lfloor>x + 1 / 2\<rfloor>"

subsection \<open>The arithmetic of doubles\<close>

text \<open>
  A double has 53 significant binary digits. The result of \<^verbatim>\<open>+\<close>, \<^verbatim>\<open>*\<close> and \<^verbatim>\<open>/\<close>
  is the double nearest to the exact result, and of two nearest doubles the one with the
  even last digit. \<open>exponent x\<close> is the \<open>e\<close> with \<open>2 ^ e \<le> x < 2 ^ (e + 1)\<close> for a
  positive \<open>x\<close>, so that the doubles around \<open>x\<close> are the multiples of \<open>2 ^ (e - 52)\<close>.
  The exponent is not bounded: the model has no infinities and no subnormal numbers.
\<close>

definition pow2 :: "int \<Rightarrow> real" where
  "pow2 e = (if 0 \<le> e then 2 ^ nat e else 1 / 2 ^ nat (- e))"

definition exponent :: "real \<Rightarrow> int" where
  "exponent x = (if 1 \<le> x then bitlen \<lfloor>x\<rfloor> - 1 else - bitlen (\<lceil>1 / x\<rceil> - 1))"

definition roundHalfEven :: "real \<Rightarrow> int" where
  "roundHalfEven x =
     (let f = \<lfloor>x\<rfloor>; r = x - real_of_int f
      in if r < 1 / 2 then f else if 1 / 2 < r then f + 1 else if even f then f else f + 1)"

definition toDouble :: "real \<Rightarrow> real" where
  "toDouble x =
     (if x = 0 then 0
      else (let ulp = pow2 (exponent \<bar>x\<bar> - 52)
            in real_of_int (roundHalfEven (x / ulp)) * ulp))"

definition fadd :: "real \<Rightarrow> real \<Rightarrow> real" where
  "fadd x y = toDouble (x + y)"

definition fmul :: "real \<Rightarrow> real \<Rightarrow> real" where
  "fmul x y = toDouble (x * y)"

definition fdiv :: "real \<Rightarrow> real \<Rightarrow> real" where
  "fdiv x y = toDouble (x / y)"

subsection \<open>Strings of digits\<close>

text \<open>
  \<^verbatim>\<open>Number(s)\<close> is modelled on strings of decimal digits (the empty string is 0); on
  every other string the model answers \<open>None\<close>, which stands for \<^verbatim>\<open>NaN\<close>. The schema
  of the working hours admits only \<^verbatim>\<open>HH:MM\<close> with two digits in each field.
\<close>

definition digit_of :: "char \<Rightarrow> nat option" where
  "digit_of c = map_of [(CHR ''0'', 0), (CHR ''1'', 1), (CHR ''2'', 2), (CHR ''3'', 3),
     (CHR ''4'', 4), (CHR ''5'', 5), (CHR ''6'', 6), (CHR ''7'', 7), (CHR ''8'', 8),
     (CHR ''9'', 9)] c"

fun decimal :: "nat \<Rightarrow> string \<Rightarrow> nat option" where
  "decimal acc [] = Some acc"
| "decimal acc (c # cs) =
     (case digit_of c of None \<Rightarrow> None | Some d \<Rightarrow> decimal (10 * acc + d) cs)"

definition Number_js :: "string \<Rightarrow> int option" where
  "Number_js s = map_option int (decimal 0 s)"

fun split_js :: "char \<Rightarrow> string \<Rightarrow> string list" where
  "split_js sep [] = [[]]"
| "split_js sep (c # cs) =
     (if c = sep then [] # split_js sep cs
      else (case split_js sep cs of [] \<Rightarrow> [[c]] | p # ps \<Rightarrow> (c # p) # ps))"

text \<open>Reading position \<open>i\<close> of an array: \<^verbatim>\<open>undefined\<close> past the end, \<^verbatim>\<open>NaN\<close> in arithmetic.\<close>

definition element :: "'a option list \<Rightarrow> nat \<Rightarrow> 'a option" where
  "element xs i = (if i < length xs then xs ! i else None)"

fun toString :: "nat \<Rightarrow> string" where
  "toString n =
     (if n < 10 then [''0123456789'' ! n]
      else toString (n div 10) @ [''0123456789'' ! (n mod 10)])"

definition padStart :: "nat \<Rightarrow> char \<Rightarrow> string \<Rightarrow> string" where
  "padStart n c s = replicate (n - length s) c @ s"

section \<open>Availability engine: \<^verbatim>\<open>getVeterinarianAvailability\<close> (server.ts)\<close>

record WorkingHours =
  dayOfWeek :: int
  startTime :: string
  endTime :: string
  isAvailable :: bool

datatype BookingStatus = PENDING | CONFIRMED | IN_PROGRESS | COMPLETED | CANCELLED | NO_SHOW

record Booking =
  veterinarianId :: string
  scheduledAt :: Date
  duration :: int
  status :: BookingStatus

text \<open>
  The record store as the function queries it: \<^verbatim>\<open>veterinarian.findUnique\<close> by id,
  selecting the working hours, and the table of bookings that \<^verbatim>\<open>booking.findMany\<close>
  filters.
\<close>

record Database =
  veterinarian :: "string \<rightharpoonup> WorkingHours list"
  booking :: "Booking list"

text \<open>
  \<^verbatim>\<open>const [h, m] = t.split(':').map(Number); h * 60 + m\<close>: the minutes since midnight,
  \<open>None\<close> when a field is missing or not a number.
\<close>

definition toMinutes :: "string \<Rightarrow> int option" where
  "toMinutes t =
     (let parts = map Number_js (split_js CHR '':'' t) in
      case element parts 0 of None \<Rightarrow> None
      | Some hour \<Rightarrow>
          (case element parts 1 of None \<Rightarrow> None
           | Some minute \<Rightarrow> Some (hour * 60 + minute)))"

definition timeString :: "int \<Rightarrow> string" where
  "timeString minutes =
     (let hour = minutes div 60; minute = minutes mod 60
      in padStart 2 CHR ''0'' (toString (nat hour)) @ '':'' @
         padStart 2 CHR ''0'' (toString (nat minute)))"

definition isBooked :: "Date \<Rightarrow> Booking list \<Rightarrow> bool" where
  "isBooked slotDateTime bookings =
     list_ex (\<lambda>b.
        let bookingStart = scheduledAt b;
            bookingEnd = bookingStart + duration b * 60000
        in slotDateTime \<ge> bookingStart \<and> slotDateTime < bookingEnd) bookings"

text \<open>The \<^verbatim>\<open>for\<close> loop over the minutes of the day, in steps of 30.\<close>

function slotLoop :: "Date \<Rightarrow> Booking list \<Rightarrow> int \<Rightarrow> int \<Rightarrow> string list \<Rightarrow> string list" where
  "slotLoop date bookings endMinutes minutes availableSlots =
     (if minutes < endMinutes then
        (let hour = minutes div 60;
             minute = minutes mod 60;
             slotDateTime = setHours date hour minute 0 0
         in slotLoop date bookings endMinutes (minutes + 30)
              (if \<not> isBooked slotDateTime bookings
               then availableSlots @ [timeString minutes] else availableSlots))
      else availableSlots)"
  by pat_completeness auto
termination
  by (relation "measure (\<lambda>(date, bookings, endMinutes, minutes, availableSlots).
        nat (endMinutes - minutes))") auto

declare slotLoop.simps [simp del]

text \<open>The \<^verbatim>\<open>where\<close> clause of \<^verbatim>\<open>booking.findMany\<close>.\<close>

definition findManyBookings :: "Database \<Rightarrow> string \<Rightarrow> Date \<Rightarrow> Booking list" where
  "findManyBookings db veterinarianId' date =
     (let startOfDay = setHours date 0 0 0 0;
          endOfDay = setHours date 23 59 59 999
      in filter (\<lambda>b. veterinarianId b = veterinarianId' \<and>
                     scheduledAt b \<ge> startOfDay \<and> scheduledAt b \<le> endOfDay \<and>
                     status b \<noteq> CANCELLED) (booking db))"

definition getVeterinarianAvailability :: "Database \<Rightarrow> string \<Rightarrow> Date \<Rightarrow> string list" where
  "getVeterinarianAvailability db veterinarianId' date =
     (let dow = getDay date in
      case veterinarian db veterinarianId' of
        None \<Rightarrow> []
      | Some workingHours \<Rightarrow>
          (case find (\<lambda>wh. dayOfWeek wh = dow \<and> isAvailable wh) workingHours of
             None \<Rightarrow> []
           | Some daySchedule \<Rightarrow>
               (let bookings = findManyBookings db veterinarianId' date in
                case toMinutes (startTime daySchedule) of
                  None \<Rightarrow> []
                | Some startMinutes \<Rightarrow>
                    (case toMinutes (endTime daySchedule) of
                       None \<Rightarrow> []
                     | Some endMinutes \<Rightarrow>
                         slotLoop date bookings endMinutes startMinutes []))))"

text \<open>
  The minutes the loop visits when it starts at \<open>s\<close> and stops before \<open>e\<close>, and the
  instant of the slot that starts \<open>m\<close> minutes into the day of \<open>date\<close>: the vocabulary
  of the statements below.
\<close>

definition candidateSlots :: "int \<Rightarrow> int \<Rightarrow> int list" where
  "candidateSlots s e = map (\<lambda>k. s + 30 * int k) [0..<nat ((e - s + 29) div 30)]"

definition slotInstant :: "Date \<Rightarrow> int \<Rightarrow> Date" where
  "slotInstant date m = (date div msPerDay) * msPerDay + m * 60000"

subsection \<open>A clinic to evaluate the engine on\<close>

text \<open>
  Monday 1 January 2024 is day 19723 of the epoch; \<open>exampleMonday\<close> is 08:00 on that
  day, and \<open>bookingAt m d\<close> is a confirmed booking of \<open>d\<close> minutes that starts \<open>m\<close>
  minutes after its midnight.
\<close>

definition exampleMonday :: Date where
  "exampleMonday = 1704096000000"

definition dayRule :: "int \<Rightarrow> string \<Rightarrow> string \<Rightarrow> bool \<Rightarrow> WorkingHours" where
  "dayRule dow start end available =
     \<lparr>dayOfWeek = dow, startTime = start, endTime = end, isAvailable = available\<rparr>"

definition bookingAt :: "int \<Rightarrow> int \<Rightarrow> Booking" where
  "bookingAt minutes dur =
     \<lparr>veterinarianId = ''vet-1'', scheduledAt = 1704067200000 + minutes * 60000,
      duration = dur, status = CONFIRMED\<rparr>"

definition exampleDb :: "WorkingHours list \<Rightarrow> Booking list \<Rightarrow> Database" where
  "exampleDb rules bookings = \<lparr>veterinarian = [''vet-1'' \<mapsto> rules], booking = bookings\<rparr>"

section \<open>Shared utilities: \<^verbatim>\<open>DateUtils.calculateAge\<close> and \<^verbatim>\<open>GeoUtils.calculateDistance\<close> (seed.ts)\<close>

subsection \<open>The calendar behind \<^verbatim>\<open>dayjs\<close>\<close>

text \<open>
  \<^verbatim>\<open>calculateAge\<close> asks the date library \<^verbatim>\<open>dayjs\<close> for the current time and for
  differences in years and months. The library is not part of the repository; the part of
  it that the function uses is written out here after the library's own algorithm, on the
  proleptic Gregorian calendar. Months count from 0, as in JavaScript, and a month outside
  0..11 carries into the year.
\<close>

definition dayNumber :: "int \<Rightarrow> int \<Rightarrow> int \<Rightarrow> int" where
  "dayNumber y m d =
     (let y1 = y + m div 12;
          m1 = m mod 12 + 1;
          y2 = (if m1 \<le> 2 then y1 - 1 else y1);
          era = y2 div 400;
          yoe = y2 mod 400;
          doy = (153 * (if m1 > 2 then m1 - 3 else m1 + 9) + 2) div 5 + d - 1;
          doe = yoe * 365 + yoe div 4 - yoe div 100 + doy
      in era * 146097 + doe - 719468)"

definition civil :: "int \<Rightarrow> int \<times> int \<times> int" where
  "civil n =
     (let z = n + 719468;
          era = z div 146097;
          doe = z mod 146097;
          yoe = (doe - doe div 1460 + doe div 36524 - doe div 146096) div 365;
          doy = doe - (365 * yoe + yoe div 4 - yoe div 100);
          mp = (5 * doy + 2) div 153;
          d = doy - (153 * mp + 2) div 5 + 1;
          m1 = (if mp < 10 then mp + 3 else mp - 9);
          y = yoe + era * 400 + (if m1 \<le> 2 then 1 else 0)
      in (y, m1 - 1, d))"

definition yearOf :: "Date \<Rightarrow> int" where
  "yearOf t = fst (civil (t div msPerDay))"

definition monthOf :: "Date \<Rightarrow> int" where
  "monthOf t = fst (snd (civil (t div msPerDay)))"

definition dateOf :: "Date \<Rightarrow> int" where
  "dateOf t = snd (snd (civil (t div msPerDay)))"

definition daysInMonth :: "int \<Rightarrow> int \<Rightarrow> int" where
  "daysInMonth y m = dayNumber y (m + 1) 1 - dayNumber y m 1"

text \<open>
  Setting the month or the year keeps the time of day and the day of the month, the
  latter cut down to the length of the month arrived at.
\<close>

definition setYearMonth :: "Date \<Rightarrow> int \<Rightarrow> int \<Rightarrow> Date" where
  "setYearMonth t y m =
     dayNumber y m (min (dateOf t) (daysInMonth y m)) * msPerDay + t mod msPerDay"

definition addMonths :: "Date \<Rightarrow> int \<Rightarrow> Date" where
  "addMonths t n = setYearMonth t (yearOf t) (monthOf t + n)"

definition addYears :: "Date \<Rightarrow> int \<Rightarrow> Date" where
  "addYears t n = setYearMonth t (yearOf t + n) (monthOf t)"

definition monthDiffFrom :: "Date \<Rightarrow> Date \<Rightarrow> real" where
  "monthDiffFrom a b =
     (let wholeMonthDiff = (yearOf b - yearOf a) * 12 + (monthOf b - monthOf a);
          anchor = addMonths a wholeMonthDiff;
          c = b - anchor < 0;
          anchor2 = addMonths a (wholeMonthDiff + (if c then - 1 else 1))
      in - (real_of_int wholeMonthDiff +
            real_of_int (b - anchor) /
              real_of_int (if c then anchor - anchor2 else anchor2 - anchor)))"

definition monthDiff :: "Date \<Rightarrow> Date \<Rightarrow> real" where
  "monthDiff a b = (if dateOf a < dateOf b then - monthDiffFrom b a else monthDiffFrom a b)"

definition absFloor :: "real \<Rightarrow> int" where
  "absFloor n = (if n < 0 then \<lceil>n\<rceil> else \<lfloor>n\<rfloor>)"

definition diffYear :: "Date \<Rightarrow> Date \<Rightarrow> int" where
  "diffYear this that = absFloor (monthDiff this that / 12)"

definition diffMonth :: "Date \<Rightarrow> Date \<Rightarrow> int" where
  "diffMonth this that = absFloor (monthDiff this that)"

subsection \<open>Age and distance\<close>

text \<open>
  \<^verbatim>\<open>calculateAge\<close> reads the clock (\<^verbatim>\<open>dayjs()\<close>); the reading is the argument
  \<open>now\<close> of the model.
\<close>

record Age =
  years :: int
  months :: int

definition calculateAge :: "Date \<Rightarrow> Date \<Rightarrow> Age" where
  "calculateAge now birthDate =
     (let birth = birthDate;
          years = diffYear now birth;
          months = diffMonth now (addYears birth years)
      in \<lparr>years = years, months = months\<rparr>)"

record LocationPoint =
  latitude :: real
  longitude :: real

definition toRadians :: "real \<Rightarrow> real" where
  "toRadians degrees = degrees * (pi / 180)"

text \<open>\<^verbatim>\<open>Math.atan2(y, x)\<close>, the angle of the point \<open>(x, y)\<close>, on the reals.\<close>

definition atan2 :: "real \<Rightarrow> real \<Rightarrow> real" where
  "atan2 y x =
     (if x > 0 then arctan (y / x)
      else if x < 0 \<and> y \<ge> 0 then arctan (y / x) + pi
      else if x < 0 \<and> y < 0 then arctan (y / x) - pi
      else if y > 0 then pi / 2
      else if y < 0 then - (pi / 2)
      else 0)"

definition calculateDistance :: "LocationPoint \<Rightarrow> LocationPoint \<Rightarrow> real" where
  "calculateDistance point1 point2 =
     (let R = 6371;
          dLat = toRadians (latitude point2 - latitude point1);
          dLon = toRadians (longitude point2 - longitude point1);
          a = sin (dLat / 2) * sin (dLat / 2) +
              cos (toRadians (latitude point1)) * cos (toRadians (latitude point2)) *
              sin (dLon / 2) * sin (dLon / 2);
          c = 2 * atan2 (sqrt a) (sqrt (1 - a))
      in R * c)"

section \<open>Matching engine: \<^verbatim>\<open>MatchingAlgorithm\<close> (seed.ts)\<close>

datatype DogSize = TINY | SMALL | MEDIUM | LARGE | GIANT

datatype ActivityLevel = LOW | MODERATE | HIGH | VERY_HIGH

datatype Gender = maschio | femmina

record Dog =
  size_d :: DogSize
  birthDate :: Date
  activityLevel :: ActivityLevel
  temperament :: "string list"
  gender :: Gender

record Address =
  coordinates :: "LocationPoint option"

record User =
  address :: "Address option"

text \<open>\<^verbatim>\<open>user.address?.coordinates\<close>: absent when the address or its coordinates are.\<close>

definition addressCoordinates :: "User \<Rightarrow> LocationPoint option" where
  "addressCoordinates user = (case address user of None \<Rightarrow> None | Some a \<Rightarrow> coordinates a)"

text \<open>\<^verbatim>\<open>Array.prototype.indexOf\<close>: the first position of the value, or \<open>-1\<close>.\<close>

fun indexOf :: "'a list \<Rightarrow> 'a \<Rightarrow> int" where
  "indexOf [] x = - 1"
| "indexOf (y # ys) x =
     (if y = x then 0 else (let i = indexOf ys x in if i < 0 then - 1 else i + 1))"

subsection \<open>Names that are imported as types only\<close>

text \<open>
  The module takes the names below from the package of types with \<^verbatim>\<open>import type\<close>
  (seed.ts, lines 782 to 791). Such an import is erased when the module is compiled: at
  run time the name is bound to nothing, and an expression that reads it, like
  \<^verbatim>\<open>DogSize.TINY\<close>, throws a \<^verbatim>\<open>ReferenceError\<close>. \<open>enumObject name members\<close> is the
  reading of the enum \<open>name\<close>, whose members would be \<open>members\<close>.
\<close>

datatype error = ReferenceError

definition typeOnlyImports :: "string list" where
  "typeOnlyImports =
     [''LocationPoint'', ''TriageResponse'', ''TriageResult'', ''TriageQuestion'',
      ''FoodCalculation'', ''ActivityLevel'', ''DogSize'', ''ApiResponse'']"

definition enumObject :: "string \<Rightarrow> 'a list \<Rightarrow> error + 'a list" where
  "enumObject name members =
     (if name \<in> set typeOnlyImports then Inl ReferenceError else Inr members)"

subsection \<open>The sub-scores and the score\<close>

text \<open>
  A function that can throw returns a sum, the error on the left. The arithmetic of the
  sub-scores is written on the reals: the score never gets as far as to use it.
\<close>

definition getSizeCompatibility :: "DogSize \<Rightarrow> DogSize \<Rightarrow> error + real" where
  "getSizeCompatibility size1 size2 =
     (case enumObject ''DogSize'' [TINY, SMALL, MEDIUM, LARGE, GIANT] of
        Inl e \<Rightarrow> Inl e
      | Inr sizeOrder \<Rightarrow>
          (let index1 = indexOf sizeOrder size1;
               index2 = indexOf sizeOrder size2;
               difference = \<bar>index1 - index2\<bar>
           in Inr (max 0 (1 - real_of_int difference * 0.2))))"

text \<open>Each of the two calls of \<^verbatim>\<open>calculateAge\<close> reads the clock: \<open>now1\<close>, then \<open>now2\<close>.\<close>

definition getAgeCompatibility :: "Date \<Rightarrow> Date \<Rightarrow> Date \<Rightarrow> Date \<Rightarrow> real" where
  "getAgeCompatibility now1 now2 birthDate1 birthDate2 =
     (let age1 = years (calculateAge now1 birthDate1);
          age2 = years (calculateAge now2 birthDate2);
          ageDifference = \<bar>age1 - age2\<bar>
      in if ageDifference \<le> 2 then 1.0
         else if ageDifference \<le> 4 then 0.7
         else if ageDifference \<le> 6 then 0.4
         else 0.1)"

definition getActivityCompatibility :: "ActivityLevel \<Rightarrow> ActivityLevel \<Rightarrow> error + real" where
  "getActivityCompatibility level1 level2 =
     (case enumObject ''ActivityLevel'' [LOW, MODERATE, HIGH, VERY_HIGH] of
        Inl e \<Rightarrow> Inl e
      | Inr activityOrder \<Rightarrow>
          (let index1 = indexOf activityOrder level1;
               index2 = indexOf activityOrder level2;
               difference = \<bar>index1 - index2\<bar>
           in Inr (max 0 (1 - real_of_int difference * 0.25))))"

definition getTemperamentCompatibility :: "string list \<Rightarrow> string list \<Rightarrow> real" where
  "getTemperamentCompatibility temperament1 temperament2 =
     (if length temperament1 = 0 \<or> length temperament2 = 0 then 0.5
      else
        (let commonTraits = filter (\<lambda>trait. trait \<in> set temperament2) temperament1;
             totalTraits = length (remdups (temperament1 @ temperament2))
         in real (length commonTraits) / real totalTraits))"

text \<open>
  The statements of \<^verbatim>\<open>calculateCompatibilityScore\<close> in their order; the first call
  that throws ends the function.
\<close>

definition calculateCompatibilityScore ::
    "Date \<Rightarrow> Date \<Rightarrow> Dog \<Rightarrow> Dog \<Rightarrow> User \<Rightarrow> User \<Rightarrow> error + int" where
  "calculateCompatibilityScore now1 now2 dog1 dog2 user1 user2 =
     (let score = 0;
          maxScore = 100
      in case getSizeCompatibility (size_d dog1) (size_d dog2) of
           Inl e \<Rightarrow> Inl e
         | Inr sizeCompatibility \<Rightarrow>
             (let score = score + sizeCompatibility * 20;
                  ageCompatibility =
                    getAgeCompatibility now1 now2 (birthDate dog1) (birthDate dog2);
                  score = score + ageCompatibility * 15
              in case getActivityCompatibility (activityLevel dog1) (activityLevel dog2) of
                   Inl e \<Rightarrow> Inl e
                 | Inr activityCompatibility \<Rightarrow>
                     (let score = score + activityCompatibility * 20;
                          temperamentCompatibility =
                            getTemperamentCompatibility (temperament dog1) (temperament dog2);
                          score = score + temperamentCompatibility * 20;
                          score =
                            (case (addressCoordinates user1, addressCoordinates user2) of
                               (Some coordinates1, Some coordinates2) \<Rightarrow>
                                 (let distance = calculateDistance coordinates1 coordinates2;
                                      proximityScore = max 0 (1 - distance / 50)
                                  in score + proximityScore * 15)
                             | _ \<Rightarrow> score);
                          genderScore = (if gender dog1 \<noteq> gender dog2 then 1 else 0.7);
                          score = score + genderScore * 10
                      in Inr (min (Math_round score) maxScore))))"

subsection \<open>Dogs and owners to evaluate the engine on\<close>

text \<open>
  Instants of the local calendar, at midnight: 15 June 2020 and 10 January 2018 as dates
  of birth, 20 March 2024 and 20 July 2024 as readings of the clock.
\<close>

definition born2020 :: Date where
  "born2020 = dayNumber 2020 5 15 * msPerDay"

definition born2018 :: Date where
  "born2018 = dayNumber 2018 0 10 * msPerDay"

definition march2024 :: Date where
  "march2024 = dayNumber 2024 2 20 * msPerDay"

definition july2024 :: Date where
  "july2024 = dayNumber 2024 6 20 * msPerDay"

definition exampleDog :: "Date \<Rightarrow> string list \<Rightarrow> Gender \<Rightarrow> Dog" where
  "exampleDog born traits g =
     \<lparr>size_d = MEDIUM, birthDate = born, activityLevel = HIGH, temperament = traits,
      gender = g\<rparr>"

definition ownerWithoutAddress :: User where
  "ownerWithoutAddress = \<lparr>address = None\<rparr>"

definition ownerAt :: "real \<Rightarrow> real \<Rightarrow> User" where
  "ownerAt lat lon =
     \<lparr>address = Some \<lparr>coordinates = Some \<lparr>latitude = lat, longitude = lon\<rparr>\<rparr>\<rparr>"

section \<open>Triage scorer: \<^verbatim>\<open>TriageSystem\<close> (seed.ts)\<close>

text \<open>
  An answer is a string, a number or a boolean. Where the code divides an answer by 10
  JavaScript converts it to a number first; the conversion of strings is the parameter
  \<open>stringToNumber\<close> of the model, and \<open>None\<close> stands for \<^verbatim>\<open>NaN\<close>, which then
  spreads through the sum to the score (strings that convert to an infinity are not
  represented). The text of a question plays no part in the score and is left out of the
  record.
\<close>

datatype Answer = AString string | ANumber real | ABoolean bool

record TriageResponse =
  questionId :: string
  answer :: Answer

datatype QuestionType = boolean | multiple | scale

datatype QuestionCategory = symptoms | behavior | history | urgency

record TriageQuestion =
  id_q :: string
  type_q :: QuestionType
  options :: "string list option"
  weight :: real
  category :: QuestionCategory

datatype UrgencyLevel = low | medium | high | critical

record TriageResult =
  score :: "int option"
  urgencyLevel :: UrgencyLevel
  recommendations :: "string list"
  suggestedActions :: "string list"
  veterinarianRequired :: bool
  emergencyServices :: bool

definition questions :: "TriageQuestion list" where
  "questions =
     [\<lparr>id_q = ''breathing_difficulty'', type_q = boolean, options = None, weight = 10,
       category = symptoms\<rparr>,
      \<lparr>id_q = ''consciousness'', type_q = boolean, options = None, weight = 9,
       category = symptoms\<rparr>,
      \<lparr>id_q = ''bleeding'', type_q = multiple,
       options = Some [''Nessuno'', ''Lieve'', ''Moderato'', ''Grave''], weight = 8,
       category = symptoms\<rparr>,
      \<lparr>id_q = ''pain_level'', type_q = scale, options = None, weight = 7,
       category = symptoms\<rparr>,
      \<lparr>id_q = ''vomiting'', type_q = boolean, options = None, weight = 5,
       category = symptoms\<rparr>,
      \<lparr>id_q = ''appetite'', type_q = boolean, options = None, weight = 4,
       category = behavior\<rparr>,
      \<lparr>id_q = ''mobility'', type_q = boolean, options = None, weight = 6,
       category = symptoms\<rparr>,
      \<lparr>id_q = ''previous_issues'', type_q = boolean, options = None, weight = 3,
       category = history\<rparr>]"

definition toNumber :: "(string \<Rightarrow> real option) \<Rightarrow> Answer \<Rightarrow> real option" where
  "toNumber stringToNumber a =
     (case a of
        ANumber x \<Rightarrow> Some x
      | ABoolean b \<Rightarrow> Some (if b then 1 else 0)
      | AString s \<Rightarrow> stringToNumber s)"

text \<open>Addition of numbers one of which may be \<^verbatim>\<open>NaN\<close>, and \<open>\<ge>\<close>, false on \<^verbatim>\<open>NaN\<close>.\<close>

definition plusNumber :: "real option \<Rightarrow> real option \<Rightarrow> real option" where
  "plusNumber a b =
     (case a of None \<Rightarrow> None | Some x \<Rightarrow> (case b of None \<Rightarrow> None | Some y \<Rightarrow> Some (fadd x y)))"

definition isAtLeast :: "int option \<Rightarrow> int \<Rightarrow> bool" where
  "isAtLeast n k = (case n of None \<Rightarrow> False | Some v \<Rightarrow> v \<ge> k)"

text \<open>
  The \<^verbatim>\<open>score\<close> of one answered question. A question with a single option would
  divide by zero; the bank has none.
\<close>

definition questionScore ::
    "(string \<Rightarrow> real option) \<Rightarrow> TriageQuestion \<Rightarrow> TriageResponse \<Rightarrow> real option" where
  "questionScore stringToNumber question response =
     (if type_q question = boolean then
        (if id_q question = ''consciousness'' \<or> id_q question = ''appetite''
         then Some (if answer response = ABoolean False then weight question else 0)
         else Some (if answer response = ABoolean True then weight question else 0))
      else if type_q question = scale then
        map_option (\<lambda>x. fmul (fdiv x 10) (weight question))
          (toNumber stringToNumber (answer response))
      else if type_q question = multiple then
        (let opts = (case options question of None \<Rightarrow> [] | Some os \<Rightarrow> os);
             answerIndex = (case answer response of AString s \<Rightarrow> indexOf opts s | _ \<Rightarrow> - 1)
         in Some (fmul (fdiv (real_of_int answerIndex) (real_of_int (int (length opts) - 1)))
                    (weight question)))
      else Some 0)"

text \<open>The body of \<^verbatim>\<open>questions.forEach\<close>, on the two running totals.\<close>

definition forEachQuestion ::
    "(string \<Rightarrow> real option) \<Rightarrow> TriageResponse list \<Rightarrow> real option \<times> real \<Rightarrow> TriageQuestion \<Rightarrow>
     real option \<times> real" where
  "forEachQuestion stringToNumber responses totals question =
     (let totalScore = fst totals;
          maxPossibleScore = fadd (snd totals) (weight question)
      in case find (\<lambda>r. questionId r = id_q question) responses of
           None \<Rightarrow> (totalScore, maxPossibleScore)
         | Some response \<Rightarrow>
             (plusNumber totalScore (questionScore stringToNumber question response),
              maxPossibleScore))"

definition calculateTriageScore ::
    "(string \<Rightarrow> real option) \<Rightarrow> TriageResponse list \<Rightarrow> TriageResult" where
  "calculateTriageScore stringToNumber responses =
     (let totals = foldl (forEachQuestion stringToNumber responses) (Some 0, 0) questions;
          totalScore = fst totals;
          maxPossibleScore = snd totals;
          normalizedScore =
            map_option (\<lambda>t. Math_round (fmul (fdiv t maxPossibleScore) 100)) totalScore
      in if isAtLeast normalizedScore 80 then
           \<lparr>score = normalizedScore, urgencyLevel = critical,
            recommendations =
              [''Contattare immediatamente i servizi di emergenza veterinaria'',
               ''Non spostare il cane se non necessario'',
               ''Mantenere il cane calmo e al caldo''],
            suggestedActions = [''Chiamare emergenza veterinaria'', ''Prepararsi al trasporto''],
            veterinarianRequired = True, emergencyServices = True\<rparr>
         else if isAtLeast normalizedScore 60 then
           \<lparr>score = normalizedScore, urgencyLevel = high,
            recommendations =
              [''Consultare un veterinario entro 2-4 ore'',
               ''Monitorare attentamente i sintomi'',
               ''Non somministrare farmaci senza consulto''],
            suggestedActions = [''Prenotare visita urgente'', ''Preparare documenti sanitari''],
            veterinarianRequired = True, emergencyServices = False\<rparr>
         else if isAtLeast normalizedScore 30 then
           \<lparr>score = normalizedScore, urgencyLevel = medium,
            recommendations =
              [''Consultare un veterinario entro 24-48 ore'',
               ''Tenere sotto osservazione'',
               ''Offrire acqua e cibo leggero se gradito''],
            suggestedActions = [''Prenotare visita'', ''Monitorare sintomi''],
            veterinarianRequired = True, emergencyServices = False\<rparr>
         else
           \<lparr>score = normalizedScore, urgencyLevel = low,
            recommendations =
              [''Situazione non urgente'',
               ''Continuare a monitorare'',
               ''Consultare il veterinario se i sintomi peggiorano''],
            suggestedActions = [''Monitoraggio domestico'', ''Consultazione opzionale''],
            veterinarianRequired = False, emergencyServices = False\<rparr>)"

subsection \<open>The score as the specification words it\<close>

text \<open>
  On exact numbers. The rules of the specification for one answer: the two questions
  phrased positively (conscious and responsive, normal appetite) score the weight when the
  answer is false, the other yes/no questions when it is true, a scale scores a tenth of
  the answer times the weight, a choice its position among the options over the last
  position, times the weight. An answer that is not a number has no tenth.
\<close>

definition positivePhrased :: "string set" where
  "positivePhrased = {''consciousness'', ''appetite''}"

definition specPoints ::
    "(string \<Rightarrow> real option) \<Rightarrow> TriageQuestion \<Rightarrow> Answer \<Rightarrow> real option" where
  "specPoints stringToNumber q a =
     (case type_q q of
        boolean \<Rightarrow>
          Some (if a = ABoolean (id_q q \<notin> positivePhrased) then weight q else 0)
      | scale \<Rightarrow>
          (case toNumber stringToNumber a of None \<Rightarrow> None | Some x \<Rightarrow> Some (x / 10 * weight q))
      | multiple \<Rightarrow>
          (let opts = (case options q of None \<Rightarrow> [] | Some os \<Rightarrow> os);
               optionIndex = (case a of AString s \<Rightarrow> indexOf opts s | _ \<Rightarrow> - 1)
           in Some (real_of_int optionIndex / real_of_int (int (length opts) - 1) * weight q)))"

text \<open>A question without a response contributes 0; the first response to a question counts.\<close>

definition specContribution ::
    "(string \<Rightarrow> real option) \<Rightarrow> TriageResponse list \<Rightarrow> TriageQuestion \<Rightarrow> real option" where
  "specContribution stringToNumber responses q =
     (case find (\<lambda>r. questionId r = id_q q) responses of
        None \<Rightarrow> Some 0
      | Some r \<Rightarrow> specPoints stringToNumber q (answer r))"

definition specScore :: "(string \<Rightarrow> real option) \<Rightarrow> TriageResponse list \<Rightarrow> int option" where
  "specScore stringToNumber responses =
     (if list_ex (\<lambda>q. specContribution stringToNumber responses q = None) questions then None
      else Some (Math_round
        (100 * sum_list (map (\<lambda>q. case specContribution stringToNumber responses q of
                                     None \<Rightarrow> 0 | Some x \<Rightarrow> x) questions)
         / sum_list (map weight questions))))"

text \<open>
  The same score in the arithmetic of doubles, with the operations in the order of the
  code: the points of the answered questions are added from 0 in the order of the bank,
  the total is divided by the sum of the weights, and the quotient multiplied by 100.
\<close>

definition doublePoints ::
    "(string \<Rightarrow> real option) \<Rightarrow> TriageQuestion \<Rightarrow> Answer \<Rightarrow> real option" where
  "doublePoints stringToNumber q a =
     (case type_q q of
        boolean \<Rightarrow>
          Some (if a = ABoolean (id_q q \<notin> positivePhrased) then weight q else 0)
      | scale \<Rightarrow>
          (case toNumber stringToNumber a of
             None \<Rightarrow> None
           | Some x \<Rightarrow> Some (fmul (fdiv x 10) (weight q)))
      | multiple \<Rightarrow>
          (let opts = (case options q of None \<Rightarrow> [] | Some os \<Rightarrow> os);
               optionIndex = (case a of AString s \<Rightarrow> indexOf opts s | _ \<Rightarrow> - 1)
           in Some (fmul (fdiv (real_of_int optionIndex) (real_of_int (int (length opts) - 1)))
                      (weight q))))"

definition addPoints ::
    "(string \<Rightarrow> real option) \<Rightarrow> TriageResponse list \<Rightarrow> real option \<Rightarrow> TriageQuestion \<Rightarrow>
     real option" where
  "addPoints stringToNumber responses totalScore q =
     (case find (\<lambda>r. questionId r = id_q q) responses of
        None \<Rightarrow> totalScore
      | Some r \<Rightarrow> plusNumber totalScore (doublePoints stringToNumber q (answer r)))"

definition doubleTotal ::
    "(string \<Rightarrow> real option) \<Rightarrow> TriageResponse list \<Rightarrow> TriageQuestion list \<Rightarrow> real option" where
  "doubleTotal stringToNumber responses qs =
     foldl (addPoints stringToNumber responses) (Some 0) qs"

definition doubleScore :: "(string \<Rightarrow> real option) \<Rightarrow> TriageResponse list \<Rightarrow> int option" where
  "doubleScore stringToNumber responses =
     map_option (\<lambda>totalScore. Math_round (fmul (fdiv totalScore (sum_list (map weight questions))) 100))
       (doubleTotal stringToNumber responses questions)"

text \<open>The responses that are the first of their question, for the questions of the bank.\<close>

fun firstPerQuestion :: "string list \<Rightarrow> TriageResponse list \<Rightarrow> TriageResponse list" where
  "firstPerQuestion seen [] = []"
| "firstPerQuestion seen (r # rs) =
     (if questionId r \<in> set (map id_q questions) \<and> questionId r \<notin> set seen
      then r # firstPerQuestion (questionId r # seen) rs
      else firstPerQuestion seen rs)"

subsection \<open>Responses to evaluate the scorer on\<close>

text \<open>
  The most severe answer to a question: the one that scores its weight. Then the
  conversion of strings of digits, and a list that answers each question of the bank in
  the most severe way.
\<close>

definition mostSevere :: "TriageQuestion \<Rightarrow> Answer" where
  "mostSevere q =
     (case type_q q of
        boolean \<Rightarrow> ABoolean (id_q q \<notin> positivePhrased)
      | scale \<Rightarrow> ANumber 10
      | multiple \<Rightarrow> AString (last (case options q of None \<Rightarrow> [] | Some os \<Rightarrow> os)))"

definition digitsToNumber :: "string \<Rightarrow> real option" where
  "digitsToNumber s = map_option real_of_int (Number_js s)"

definition respond :: "string \<Rightarrow> Answer \<Rightarrow> TriageResponse" where
  "respond q a = \<lparr>questionId = q, answer = a\<rparr>"

definition worstCase :: "TriageResponse list" where
  "worstCase =
     [respond ''breathing_difficulty'' (ABoolean True),
      respond ''consciousness'' (ABoolean False),
      respond ''bleeding'' (AString ''Grave''),
      respond ''pain_level'' (ANumber 10),
      respond ''vomiting'' (ABoolean True),
      respond ''appetite'' (ABoolean False),
      respond ''mobility'' (ABoolean True),
      respond ''previous_issues'' (ABoolean True)]"

section \<open>Properties of the availability engine\<close>

lemmas availability_eval = getVeterinarianAvailability_def findManyBookings_def toMinutes_def
  element_def Number_js_def digit_of_def timeString_def padStart_def isBooked_def setHours_def
  getDay_def msPerDay_def slotLoop.simps slotInstant_def exampleMonday_def exampleDb_def
  dayRule_def bookingAt_def

lemma setHours_slot: "setHours date (m div 60) (m mod 60) 0 0 = slotInstant date m"
  by (simp add: setHours_def slotInstant_def algebra_simps)

lemma isBooked_iff:
  "isBooked t bs \<longleftrightarrow>
     (\<exists>b\<in>set bs. scheduledAt b \<le> t \<and> t < scheduledAt b + duration b * 60000)"
  by (auto simp: isBooked_def list_ex_iff Let_def)

lemma candidateSlots_empty: "e \<le> s \<Longrightarrow> candidateSlots s e = []"
  by (simp add: candidateSlots_def)

lemma candidateSlots_step: "s < e \<Longrightarrow> candidateSlots s e = s # candidateSlots (s + 30) e"
proof -
  assume lt: "s < e"
  have n: "nat ((e - s + 29) div 30) = Suc (nat ((e - (s + 30) + 29) div 30))"
    using lt by linarith
  show ?thesis
    unfolding candidateSlots_def n
    by (simp add: upt_conv_Cons map_Suc_upt [symmetric] del: upt_Suc)
qed

text \<open>The loop appends, in order, the labels of the visited minutes that are not booked.\<close>

lemma slotLoop_eq:
  "slotLoop date bs e m acc =
     acc @ map timeString
       (filter (\<lambda>m. \<not> isBooked (slotInstant date m) bs) (candidateSlots m e))"
proof (induction date bs e m acc rule: slotLoop.induct)
  case (1 date bs e m acc)
  show ?case
  proof (cases "m < e")
    case True
    then show ?thesis
      using "1.IH" [OF True refl refl refl]
      by (subst slotLoop.simps) (simp add: candidateSlots_step setHours_slot Let_def)
  next
    case False
    then show ?thesis
      by (subst slotLoop.simps) (simp add: candidateSlots_empty)
  qed
qed

lemma candidateSlots_mem:
  "m \<in> set (candidateSlots s e) \<longleftrightarrow> s \<le> m \<and> m < e \<and> (m - s) mod 30 = 0"
proof
  assume "m \<in> set (candidateSlots s e)"
  then obtain k where k: "m = s + 30 * int k" "k < nat ((e - s + 29) div 30)"
    by (auto simp: candidateSlots_def)
  from k(2) have "int k < (e - s + 29) div 30" by linarith
  then have "30 * int k < e - s" by linarith
  with k(1) show "s \<le> m \<and> m < e \<and> (m - s) mod 30 = 0" by simp
next
  assume a: "s \<le> m \<and> m < e \<and> (m - s) mod 30 = 0"
  define k where "k = nat ((m - s) div 30)"
  from a have m: "m = s + 30 * int k" unfolding k_def by auto
  from a have "k < nat ((e - s + 29) div 30)" unfolding k_def by linarith
  with m show "m \<in> set (candidateSlots s e)"
    by (auto simp: candidateSlots_def)
qed

lemma candidateSlots_sorted: "sorted_wrt (<) (candidateSlots s e)"
  by (simp add: candidateSlots_def sorted_wrt_map sorted_wrt_iff_nth_less)

lemma availability_eq:
  assumes "veterinarian db vid = Some wh"
    and "find (\<lambda>h. dayOfWeek h = getDay date \<and> isAvailable h) wh = Some r"
    and "toMinutes (startTime r) = Some s"
    and "toMinutes (endTime r) = Some e"
  shows "getVeterinarianAvailability db vid date =
     map timeString
       (filter (\<lambda>m. \<not> isBooked (slotInstant date m) (findManyBookings db vid date))
         (candidateSlots s e))"
  using assms by (simp add: getVeterinarianAvailability_def slotLoop_eq)

lemma exampleMonday_is_monday: "getDay exampleMonday = 1"
  by (simp add: getDay_def msPerDay_def exampleMonday_def)

lemma toMinutes_examples:
  "toMinutes ''09:00'' = Some 540" "toMinutes ''09:30'' = Some 570"
  "toMinutes ''09:45'' = Some 585" "toMinutes ''12:00'' = Some 720"
  by (simp_all add: toMinutes_def element_def Number_js_def digit_of_def)

lemma candidateSlots_morning: "candidateSlots 540 720 = [540, 570, 600, 630, 660, 690]"
  by (simp add: candidateSlots_def upt_conv_Cons)

text \<open>
  Claim C1, as the code has it. When the veterinarian is found, the day has an available
  rule and its two times are numbers, the slots returned are the labels of exactly those
  candidates (start, start + 30, ... before the end) whose start instant lies in no booked
  interval, \<open>bookedStart \<le> slotStart < bookedEnd\<close>, in ascending order of time. The
  test looks at the start of the slot only; it agrees with the half-open overlap
  \<open>slotStart < bookedEnd \<and> bookedStart < slotEnd\<close> for every booking that starts on the
  30-minute grid of the day's rule.
\<close>

theorem slots_are_candidates_starting_in_no_booking:
  assumes "veterinarian db vid = Some wh"
    and "find (\<lambda>h. dayOfWeek h = getDay date \<and> isAvailable h) wh = Some r"
    and "toMinutes (startTime r) = Some s"
    and "toMinutes (endTime r) = Some e"
  shows "getVeterinarianAvailability db vid date =
           map timeString
             (filter (\<lambda>m. \<not> (\<exists>b\<in>set (findManyBookings db vid date).
                  scheduledAt b \<le> slotInstant date m \<and>
                  slotInstant date m < scheduledAt b + duration b * 60000))
               (candidateSlots s e)) \<and>
         sorted_wrt (<) (candidateSlots s e) \<and>
         ((\<forall>b\<in>set (findManyBookings db vid date).
              \<exists>k. scheduledAt b = slotInstant date (s + 30 * k)) \<longrightarrow>
          (\<forall>m\<in>set (candidateSlots s e). \<forall>b\<in>set (findManyBookings db vid date).
             (scheduledAt b \<le> slotInstant date m \<and>
              slotInstant date m < scheduledAt b + duration b * 60000) \<longleftrightarrow>
             (slotInstant date m < scheduledAt b + duration b * 60000 \<and>
              scheduledAt b < slotInstant date (m + 30))))"
proof (intro conjI impI ballI)
  show "getVeterinarianAvailability db vid date =
           map timeString
             (filter (\<lambda>m. \<not> (\<exists>b\<in>set (findManyBookings db vid date).
                  scheduledAt b \<le> slotInstant date m \<and>
                  slotInstant date m < scheduledAt b + duration b * 60000))
               (candidateSlots s e))"
    using availability_eq [OF assms] by (simp add: isBooked_iff)
next
  show "sorted_wrt (<) (candidateSlots s e)" by (rule candidateSlots_sorted)
next
  fix m b
  assume grid: "\<forall>b\<in>set (findManyBookings db vid date).
      \<exists>k. scheduledAt b = slotInstant date (s + 30 * k)"
    and m: "m \<in> set (candidateSlots s e)"
    and b: "b \<in> set (findManyBookings db vid date)"
  from grid b obtain k where k: "scheduledAt b = slotInstant date (s + 30 * k)" by blast
  from m obtain j where j: "m = s + 30 * int j" by (auto simp: candidateSlots_def)
  have "scheduledAt b \<le> slotInstant date m \<longleftrightarrow> scheduledAt b < slotInstant date (m + 30)"
    unfolding k j slotInstant_def by auto
  then show "(scheduledAt b \<le> slotInstant date m \<and>
              slotInstant date m < scheduledAt b + duration b * 60000) \<longleftrightarrow>
             (slotInstant date m < scheduledAt b + duration b * 60000 \<and>
              scheduledAt b < slotInstant date (m + 30))"
    by blast
qed

text \<open>
  Monday 09:00 to 12:00 with one hour booked from 09:30 (on the grid): the slots at 09:30
  and 10:00 start inside the booking, the other four are returned.
\<close>

theorem slots_are_candidates_starting_in_no_booking_witness:
  "veterinarian (exampleDb [dayRule 1 ''09:00'' ''12:00'' True] [bookingAt 570 60]) ''vet-1'' =
     Some [dayRule 1 ''09:00'' ''12:00'' True] \<and>
   find (\<lambda>h. dayOfWeek h = getDay exampleMonday \<and> isAvailable h)
     [dayRule 1 ''09:00'' ''12:00'' True] = Some (dayRule 1 ''09:00'' ''12:00'' True) \<and>
   toMinutes (startTime (dayRule 1 ''09:00'' ''12:00'' True)) = Some 540 \<and>
   toMinutes (endTime (dayRule 1 ''09:00'' ''12:00'' True)) = Some 720 \<and>
   scheduledAt (bookingAt 570 60) = slotInstant exampleMonday (540 + 30 * 1) \<and>
   getVeterinarianAvailability (exampleDb [dayRule 1 ''09:00'' ''12:00'' True] [bookingAt 570 60])
     ''vet-1'' exampleMonday = [''09:00'', ''10:30'', ''11:00'', ''11:30'']"
proof -
  let ?r = "dayRule 1 ''09:00'' ''12:00'' True"
  let ?db = "exampleDb [?r] [bookingAt 570 60]"
  have h1: "veterinarian ?db ''vet-1'' = Some [?r]"
    by (simp add: exampleDb_def)
  have h2: "find (\<lambda>h. dayOfWeek h = getDay exampleMonday \<and> isAvailable h) [?r] = Some ?r"
    by (simp add: exampleMonday_is_monday dayRule_def)
  have h3: "toMinutes (startTime ?r) = Some 540"
    by (simp add: dayRule_def toMinutes_examples)
  have h4: "toMinutes (endTime ?r) = Some 720"
    by (simp add: dayRule_def toMinutes_examples)
  have grid: "scheduledAt (bookingAt 570 60) = slotInstant exampleMonday (540 + 30 * 1)"
    by (simp add: bookingAt_def slotInstant_def exampleMonday_def msPerDay_def)
  have bs: "findManyBookings ?db ''vet-1'' exampleMonday = [bookingAt 570 60]"
    by (simp add: findManyBookings_def exampleDb_def bookingAt_def setHours_def
        exampleMonday_def msPerDay_def)
  from slots_are_candidates_starting_in_no_booking [OF h1 h2 h3 h4]
  have "getVeterinarianAvailability ?db ''vet-1'' exampleMonday =
          map timeString
            (filter (\<lambda>m. \<not> (\<exists>b\<in>set (findManyBookings ?db ''vet-1'' exampleMonday).
                 scheduledAt b \<le> slotInstant exampleMonday m \<and>
                 slotInstant exampleMonday m < scheduledAt b + duration b * 60000))
              (candidateSlots 540 720))"
    by (rule conjunct1)
  also have "\<dots> = [''09:00'', ''10:30'', ''11:00'', ''11:30'']"
    unfolding bs candidateSlots_morning
    by (simp add: bookingAt_def slotInstant_def exampleMonday_def msPerDay_def
        timeString_def padStart_def)
  finally show ?thesis
    using h1 h2 h3 h4 grid by simp
qed

text \<open>
  Claim C1 as stated fails: a half-hour booking from 09:15 overlaps the slot from 09:00 to
  09:30, and the slot is returned all the same, because 09:00 is before the booking starts.
\<close>

theorem slot_overlapping_a_booking_is_returned:
  "getVeterinarianAvailability (exampleDb [dayRule 1 ''09:00'' ''12:00'' True] [bookingAt 555 30])
     ''vet-1'' exampleMonday = [''09:00'', ''10:00'', ''10:30'', ''11:00'', ''11:30''] \<and>
   timeString 540 = ''09:00'' \<and>
   slotInstant exampleMonday 540 <
     scheduledAt (bookingAt 555 30) + duration (bookingAt 555 30) * 60000 \<and>
   scheduledAt (bookingAt 555 30) < slotInstant exampleMonday (540 + 30)"
  by (simp add: availability_eval)

text \<open>
  Claim C2, as the code has it. The slot size is the constant 30 of the loop. Every label
  returned is that of a minute \<open>m\<close> of the window with \<open>start \<le> m < end\<close>, a multiple
  of 30 minutes after the start. A last slot that begins before the end is returned even
  when less than 30 minutes remain; \<open>m \<le> end - 30\<close> holds when the length of the
  window is a multiple of 30.
\<close>

theorem slot_labels_start_in_window_on_grid:
  assumes "veterinarian db vid = Some wh"
    and "find (\<lambda>h. dayOfWeek h = getDay date \<and> isAvailable h) wh = Some r"
    and "toMinutes (startTime r) = Some s"
    and "toMinutes (endTime r) = Some e"
  shows "\<forall>l\<in>set (getVeterinarianAvailability db vid date).
           \<exists>m. l = timeString m \<and> s \<le> m \<and> m < e \<and> (m - s) mod 30 = 0 \<and>
               ((e - s) mod 30 = 0 \<longrightarrow> m \<le> e - 30)"
proof
  fix l
  assume "l \<in> set (getVeterinarianAvailability db vid date)"
  then have "l \<in> timeString ` set (candidateSlots s e)"
    unfolding availability_eq [OF assms] by auto
  then obtain m where l: "l = timeString m" and m: "m \<in> set (candidateSlots s e)"
    by blast
  from m have in_window: "s \<le> m \<and> m < e \<and> (m - s) mod 30 = 0"
    by (simp add: candidateSlots_mem)
  have "(e - s) mod 30 = 0 \<longrightarrow> m \<le> e - 30"
  proof
    assume "(e - s) mod 30 = 0"
    then have "30 dvd e - s" by (simp add: dvd_eq_mod_eq_0)
    moreover from in_window have "30 dvd m - s" by (simp add: dvd_eq_mod_eq_0)
    ultimately have "30 dvd (e - s) - (m - s)" by (rule dvd_diff)
    then have "30 dvd e - m" by simp
    moreover from in_window have "0 < e - m" by simp
    ultimately have "30 \<le> e - m" by (rule zdvd_imp_le)
    then show "m \<le> e - 30" by simp
  qed
  with l in_window
  have "l = timeString m \<and> s \<le> m \<and> m < e \<and> (m - s) mod 30 = 0 \<and>
          ((e - s) mod 30 = 0 \<longrightarrow> m \<le> e - 30)"
    by simp
  then show "\<exists>m. l = timeString m \<and> s \<le> m \<and> m < e \<and> (m - s) mod 30 = 0 \<and>
               ((e - s) mod 30 = 0 \<longrightarrow> m \<le> e - 30)"
    by (rule exI)
qed

text \<open>
  Monday 09:00 to 12:00 without bookings, the example of the specification: the label
  11:30 is returned, and it is the label of a minute of the window, on the grid, at most
  the end less 30.
\<close>

theorem slot_labels_start_in_window_on_grid_witness:
  "veterinarian (exampleDb [dayRule 1 ''09:00'' ''12:00'' True] []) ''vet-1'' =
     Some [dayRule 1 ''09:00'' ''12:00'' True] \<and>
   find (\<lambda>h. dayOfWeek h = getDay exampleMonday \<and> isAvailable h)
     [dayRule 1 ''09:00'' ''12:00'' True] = Some (dayRule 1 ''09:00'' ''12:00'' True) \<and>
   toMinutes (startTime (dayRule 1 ''09:00'' ''12:00'' True)) = Some 540 \<and>
   toMinutes (endTime (dayRule 1 ''09:00'' ''12:00'' True)) = Some 720 \<and>
   ''11:30'' \<in> set (getVeterinarianAvailability
     (exampleDb [dayRule 1 ''09:00'' ''12:00'' True] []) ''vet-1'' exampleMonday) \<and>
   (720 - 540) mod 30 = (0::int) \<and>
   (\<exists>m. ''11:30'' = timeString m \<and> 540 \<le> m \<and> m < 720 \<and> (m - 540) mod 30 = 0 \<and>
        m \<le> 720 - 30)"
proof -
  let ?r = "dayRule 1 ''09:00'' ''12:00'' True"
  let ?db = "exampleDb [?r] []"
  have h1: "veterinarian ?db ''vet-1'' = Some [?r]"
    by (simp add: exampleDb_def)
  have h2: "find (\<lambda>h. dayOfWeek h = getDay exampleMonday \<and> isAvailable h) [?r] = Some ?r"
    by (simp add: exampleMonday_is_monday dayRule_def)
  have h3: "toMinutes (startTime ?r) = Some 540"
    by (simp add: dayRule_def toMinutes_examples)
  have h4: "toMinutes (endTime ?r) = Some 720"
    by (simp add: dayRule_def toMinutes_examples)
  have mem: "''11:30'' \<in> set (getVeterinarianAvailability ?db ''vet-1'' exampleMonday)"
    by (simp add: availability_eval)
  have len: "(720 - 540) mod 30 = (0::int)" by simp
  from slot_labels_start_in_window_on_grid [OF h1 h2 h3 h4] mem
  have "\<exists>m. ''11:30'' = timeString m \<and> 540 \<le> m \<and> m < 720 \<and> (m - 540) mod 30 = 0 \<and>
          ((720 - 540) mod 30 = (0::int) \<longrightarrow> m \<le> 720 - 30)"
    by (rule bspec)
  then have "\<exists>m. ''11:30'' = timeString m \<and> 540 \<le> m \<and> m < 720 \<and> (m - 540) mod 30 = 0 \<and>
          m \<le> 720 - 30"
    using len by simp
  with h1 h2 h3 h4 mem len show ?thesis by simp
qed

text \<open>
  Claim C2 as stated fails: with Monday 09:00 to 09:45 the slot 09:30 is returned, later
  than the end less the slot size, 09:15.
\<close>

theorem partial_last_slot_is_returned:
  "getVeterinarianAvailability (exampleDb [dayRule 1 ''09:00'' ''09:45'' True] [])
     ''vet-1'' exampleMonday = [''09:00'', ''09:30''] \<and>
   toMinutes ''09:30'' = Some 570 \<and> toMinutes ''09:45'' = Some 585 \<and>
   \<not> (570 \<le> 585 - (30::int))"
  by (simp add: availability_eval)

text \<open>
  Claim C8. The result is the empty list when the schedule has no rule for the day of the
  week of the date, when every rule for that day has \<open>isAvailable = False\<close> (with at most
  one rule per day, the invariant of a weekly schedule: when the matching rule has), and
  when the start and end times of the rule in force are equal. It is a value, not an
  error: the function has no other kind of result.
\<close>

theorem closed_day_yields_no_slots:
  assumes closed:
    "(\<forall>r\<in>set wh. dayOfWeek r \<noteq> getDay date) \<or>
     (\<forall>r\<in>set wh. dayOfWeek r = getDay date \<longrightarrow> \<not> isAvailable r) \<or>
     (\<exists>r. find (\<lambda>h. dayOfWeek h = getDay date \<and> isAvailable h) wh = Some r \<and>
          startTime r = endTime r)"
    and found: "veterinarian db vid = Some wh"
  shows "getVeterinarianAvailability db vid date = []"
proof -
  consider
    (none) "find (\<lambda>h. dayOfWeek h = getDay date \<and> isAvailable h) wh = None"
  | (same) r where "find (\<lambda>h. dayOfWeek h = getDay date \<and> isAvailable h) wh = Some r"
      "startTime r = endTime r"
    using closed by (auto simp: find_None_iff)
  then show ?thesis
  proof cases
    case none
    with found show ?thesis by (simp add: getVeterinarianAvailability_def)
  next
    case same
    with found show ?thesis
      by (simp add: getVeterinarianAvailability_def slotLoop_eq candidateSlots_empty
          split: option.splits)
  qed
qed

text \<open>
  On the example Monday: a schedule with a rule for Sunday only, one whose Monday rule is
  not available, and one whose Monday rule starts and ends at 09:00.
\<close>

theorem closed_day_yields_no_slots_witness:
  "dayOfWeek (dayRule 0 ''09:00'' ''12:00'' True) \<noteq> getDay exampleMonday \<and>
   getVeterinarianAvailability (exampleDb [dayRule 0 ''09:00'' ''12:00'' True] [])
     ''vet-1'' exampleMonday = [] \<and>
   \<not> isAvailable (dayRule 1 ''09:00'' ''12:00'' False) \<and>
   getVeterinarianAvailability (exampleDb [dayRule 1 ''09:00'' ''12:00'' False] [])
     ''vet-1'' exampleMonday = [] \<and>
   find (\<lambda>h. dayOfWeek h = getDay exampleMonday \<and> isAvailable h)
     [dayRule 1 ''09:00'' ''09:00'' True] = Some (dayRule 1 ''09:00'' ''09:00'' True) \<and>
   startTime (dayRule 1 ''09:00'' ''09:00'' True) = endTime (dayRule 1 ''09:00'' ''09:00'' True) \<and>
   getVeterinarianAvailability (exampleDb [dayRule 1 ''09:00'' ''09:00'' True] [])
     ''vet-1'' exampleMonday = []"
proof -
  have db: "veterinarian (exampleDb rules []) ''vet-1'' = Some rules" for rules
    by (simp add: exampleDb_def)
  have a: "dayOfWeek (dayRule 0 ''09:00'' ''12:00'' True) \<noteq> getDay exampleMonday"
    by (simp add: exampleMonday_is_monday dayRule_def)
  then have "\<forall>r\<in>set [dayRule 0 ''09:00'' ''12:00'' True]. dayOfWeek r \<noteq> getDay exampleMonday"
    by simp
  then have r1: "getVeterinarianAvailability (exampleDb [dayRule 0 ''09:00'' ''12:00'' True] [])
      ''vet-1'' exampleMonday = []"
    by (intro closed_day_yields_no_slots [OF _ db] disjI1)
  have b: "\<not> isAvailable (dayRule 1 ''09:00'' ''12:00'' False)"
    by (simp add: dayRule_def)
  then have "\<forall>r\<in>set [dayRule 1 ''09:00'' ''12:00'' False].
      dayOfWeek r = getDay exampleMonday \<longrightarrow> \<not> isAvailable r"
    by simp
  then have r2: "getVeterinarianAvailability (exampleDb [dayRule 1 ''09:00'' ''12:00'' False] [])
      ''vet-1'' exampleMonday = []"
    by (intro closed_day_yields_no_slots [OF _ db] disjI2 disjI1)
  have c: "find (\<lambda>h. dayOfWeek h = getDay exampleMonday \<and> isAvailable h)
      [dayRule 1 ''09:00'' ''09:00'' True] = Some (dayRule 1 ''09:00'' ''09:00'' True)"
    by (simp add: exampleMonday_is_monday dayRule_def)
  have d: "startTime (dayRule 1 ''09:00'' ''09:00'' True) =
      endTime (dayRule 1 ''09:00'' ''09:00'' True)"
    by (simp add: dayRule_def)
  from c d have "\<exists>r. find (\<lambda>h. dayOfWeek h = getDay exampleMonday \<and> isAvailable h)
      [dayRule 1 ''09:00'' ''09:00'' True] = Some r \<and> startTime r = endTime r"
    by blast
  then have r3: "getVeterinarianAvailability (exampleDb [dayRule 1 ''09:00'' ''09:00'' True] [])
      ''vet-1'' exampleMonday = []"
    by (intro closed_day_yields_no_slots [OF _ db] disjI2)
  from a r1 b r2 c d r3 show ?thesis by blast
qed

section \<open>Properties of the arithmetic of doubles\<close>

text \<open>
  Rounding to a double keeps the order of non-negative numbers and leaves a natural number
  below \<open>2 ^ 53\<close> as it is.
\<close>

lemma pow2_pos: "0 < pow2 e"
  by (simp add: pow2_def)

lemma pow2_powr: "pow2 e = 2 powr real_of_int e"
  by (simp add: pow2_def powr_real_of_int inverse_eq_divide)

lemma pow2_mono: "a \<le> b \<Longrightarrow> pow2 a \<le> pow2 b"
  by (simp add: pow2_powr)

lemma pow2_less_cancel: "pow2 a < pow2 b \<Longrightarrow> a < b"
  by (simp add: pow2_powr)

lemma pow2_add: "pow2 (a + b) = pow2 a * pow2 b"
  by (simp add: pow2_powr powr_add)

lemma pow2_nat: "pow2 (int n) = 2 ^ n"
  by (simp add: pow2_def)

lemma exponent_bounds:
  assumes "0 < x"
  shows "pow2 (exponent x) \<le> x \<and> x < pow2 (exponent x + 1)"
proof (cases "1 \<le> x")
  case True
  define m where "m = \<lfloor>x\<rfloor>"
  from True have m: "0 < m" unfolding m_def by linarith
  from bitlen_bounds [OF m]
  have lo: "2 ^ nat (bitlen m - 1) \<le> m" and hi: "m < 2 ^ nat (bitlen m)" by simp_all
  from m have b: "1 \<le> bitlen m" by (simp add: bitlen_alt_def)
  have e: "exponent x = bitlen m - 1" using True by (simp add: exponent_def m_def)
  have "real_of_int (2 ^ nat (bitlen m - 1)) \<le> real_of_int m" using lo by linarith
  moreover have "real_of_int m \<le> x" unfolding m_def by linarith
  ultimately have "real_of_int (2 ^ nat (bitlen m - 1)) \<le> x" by linarith
  moreover have "pow2 (exponent x) = real_of_int (2 ^ nat (bitlen m - 1))"
    using b by (simp add: e pow2_def)
  ultimately have l: "pow2 (exponent x) \<le> x" by simp
  from hi have "m + 1 \<le> 2 ^ nat (bitlen m)" by linarith
  then have "real_of_int (m + 1) \<le> real_of_int (2 ^ nat (bitlen m))" by linarith
  moreover have "x < real_of_int (m + 1)" unfolding m_def by linarith
  ultimately have "x < real_of_int (2 ^ nat (bitlen m))" by linarith
  moreover have "pow2 (exponent x + 1) = real_of_int (2 ^ nat (bitlen m))"
    using b by (simp add: e pow2_def)
  ultimately have "x < pow2 (exponent x + 1)" by simp
  with l show ?thesis by simp
next
  case False
  with assms have x: "0 < x" "x < 1" by simp_all
  define n where "n = \<lceil>1 / x\<rceil> - 1"
  from x have "1 < 1 / x" by simp
  then have n: "0 < n" unfolding n_def by linarith
  from bitlen_bounds [OF n]
  have lo: "2 ^ nat (bitlen n - 1) \<le> n" and hi: "n < 2 ^ nat (bitlen n)" by simp_all
  from n have b: "1 \<le> bitlen n" by (simp add: bitlen_alt_def)
  have e: "exponent x = - bitlen n" using False by (simp add: exponent_def n_def)
  from hi have "n + 1 \<le> 2 ^ nat (bitlen n)" by linarith
  then have "real_of_int (n + 1) \<le> real_of_int (2 ^ nat (bitlen n))" by linarith
  moreover have "1 / x \<le> real_of_int (n + 1)" unfolding n_def by linarith
  ultimately have "1 / x \<le> real_of_int (2 ^ nat (bitlen n))" by linarith
  then have "1 / x \<le> 2 ^ nat (bitlen n)" by simp
  with x have "1 / 2 ^ nat (bitlen n) \<le> x"
    by (simp add: field_simps)
  then have l: "pow2 (exponent x) \<le> x" using b by (simp add: e pow2_def)
  have "real_of_int (2 ^ nat (bitlen n - 1)) \<le> real_of_int n" using lo by linarith
  moreover have "real_of_int n < 1 / x" unfolding n_def by linarith
  ultimately have "real_of_int (2 ^ nat (bitlen n - 1)) < 1 / x" by linarith
  then have "2 ^ nat (bitlen n - 1) < 1 / x" by simp
  with x have u: "x < 1 / 2 ^ nat (bitlen n - 1)"
    by (simp add: field_simps)
  have "pow2 (exponent x + 1) = 1 / 2 ^ nat (bitlen n - 1)"
  proof (cases "bitlen n = 1")
    case True
    then show ?thesis by (simp add: e pow2_def)
  next
    case False
    with b have "1 < bitlen n" by simp
    then show ?thesis by (simp add: e pow2_def)
  qed
  with u l show ?thesis by simp
qed

lemma exponent_mono:
  assumes "0 < x" and "x \<le> y"
  shows "exponent x \<le> exponent y"
proof -
  from assms have y: "0 < y" by simp
  from exponent_bounds [OF assms(1)] exponent_bounds [OF y] assms(2)
  have "pow2 (exponent x) < pow2 (exponent y + 1)" by linarith
  then have "exponent x < exponent y + 1" by (rule pow2_less_cancel)
  then show ?thesis by simp
qed

lemma roundHalfEven_of_int: "roundHalfEven (real_of_int n) = n"
  by (simp add: roundHalfEven_def)

lemma roundHalfEven_range:
  "\<lfloor>x\<rfloor> \<le> roundHalfEven x \<and> roundHalfEven x \<le> \<lfloor>x\<rfloor> + 1"
  by (simp add: roundHalfEven_def Let_def)

lemma roundHalfEven_mono:
  assumes "a \<le> b"
  shows "roundHalfEven a \<le> roundHalfEven b"
proof (cases "\<lfloor>a\<rfloor> = \<lfloor>b\<rfloor>")
  case True
  with assms have "a - real_of_int \<lfloor>a\<rfloor> \<le> b - real_of_int \<lfloor>b\<rfloor>" by simp
  with True show ?thesis
    by (auto simp: roundHalfEven_def Let_def)
next
  case False
  with assms have "\<lfloor>a\<rfloor> < \<lfloor>b\<rfloor>" by (meson floor_mono le_less)
  with roundHalfEven_range [of a] roundHalfEven_range [of b] show ?thesis by linarith
qed

lemma toDouble_0: "toDouble 0 = 0"
  by (simp add: toDouble_def)

lemma toDouble_pos_bounds:
  assumes "0 < x"
  shows "pow2 (exponent x) \<le> toDouble x \<and> toDouble x \<le> pow2 (exponent x + 1)"
proof -
  define u where "u = pow2 (exponent x - 52)"
  have u: "0 < u" unfolding u_def by (rule pow2_pos)
  have p52: "pow2 52 = real_of_int (2 ^ 52)" and p53: "pow2 53 = real_of_int (2 ^ 53)"
    by (simp_all add: pow2_def)
  have "pow2 (52 + (exponent x - 52)) = pow2 52 * u"
    unfolding u_def by (rule pow2_add)
  then have lo: "pow2 (exponent x) = real_of_int (2 ^ 52) * u"
    by (simp add: p52)
  have "pow2 (53 + (exponent x - 52)) = pow2 53 * u"
    unfolding u_def by (rule pow2_add)
  moreover have "53 + (exponent x - 52) = exponent x + 1" by simp
  ultimately have hi: "pow2 (exponent x + 1) = real_of_int (2 ^ 53) * u"
    by (simp add: p53)
  from exponent_bounds [OF assms] have "real_of_int (2 ^ 52) * u \<le> x" "x \<le> real_of_int (2 ^ 53) * u"
    unfolding lo hi by simp_all
  with u have "real_of_int (2 ^ 52) \<le> x / u" "x / u \<le> real_of_int (2 ^ 53)"
    by (simp_all add: field_simps)
  then have "roundHalfEven (real_of_int (2 ^ 52)) \<le> roundHalfEven (x / u)"
    "roundHalfEven (x / u) \<le> roundHalfEven (real_of_int (2 ^ 53))"
    by (simp_all only: roundHalfEven_mono)
  then have "2 ^ 52 \<le> roundHalfEven (x / u)" "roundHalfEven (x / u) \<le> 2 ^ 53"
    by (simp_all only: roundHalfEven_of_int)
  then have "real_of_int (2 ^ 52) \<le> real_of_int (roundHalfEven (x / u))"
    "real_of_int (roundHalfEven (x / u)) \<le> real_of_int (2 ^ 53)"
    by linarith+
  with u have "real_of_int (2 ^ 52) * u \<le> real_of_int (roundHalfEven (x / u)) * u"
    "real_of_int (roundHalfEven (x / u)) * u \<le> real_of_int (2 ^ 53) * u"
    by (simp_all only: mult_le_cancel_right_pos)
  moreover have "toDouble x = real_of_int (roundHalfEven (x / u)) * u"
    using assms by (simp add: toDouble_def u_def Let_def)
  ultimately show ?thesis unfolding lo hi by simp
qed

lemma toDouble_mono:
  assumes "0 \<le> x" and "x \<le> y"
  shows "toDouble x \<le> toDouble y"
proof (cases "x = 0")
  case True
  show ?thesis
  proof (cases "y = 0")
    case True
    with \<open>x = 0\<close> show ?thesis by simp
  next
    case False
    with assms True have "0 < y" by simp
    from toDouble_pos_bounds [OF this] pow2_pos [of "exponent y"] True show ?thesis
      by (simp add: toDouble_0)
  qed
next
  case False
  with assms have x: "0 < x" and y: "0 < y" by simp_all
  from exponent_mono [OF x assms(2)] have e: "exponent x \<le> exponent y" .
  show ?thesis
  proof (cases "exponent x = exponent y")
    case True
    define u where "u = pow2 (exponent x - 52)"
    have u: "0 < u" unfolding u_def by (rule pow2_pos)
    from assms(2) u have "x / u \<le> y / u" by (simp add: divide_right_mono)
    then have "roundHalfEven (x / u) \<le> roundHalfEven (y / u)" by (rule roundHalfEven_mono)
    then have "real_of_int (roundHalfEven (x / u)) \<le> real_of_int (roundHalfEven (y / u))"
      by linarith
    with u have "real_of_int (roundHalfEven (x / u)) * u \<le> real_of_int (roundHalfEven (y / u)) * u"
      by (simp only: mult_le_cancel_right_pos)
    with x y True show ?thesis by (simp add: toDouble_def Let_def u_def)
  next
    case False
    with e have "exponent x + 1 \<le> exponent y" by simp
    then have "pow2 (exponent x + 1) \<le> pow2 (exponent y)" by (rule pow2_mono)
    with toDouble_pos_bounds [OF x] toDouble_pos_bounds [OF y] show ?thesis by linarith
  qed
qed

lemma toDouble_nonneg: "0 \<le> x \<Longrightarrow> 0 \<le> toDouble x"
  using toDouble_mono [of 0 x] by (simp add: toDouble_0)

lemma toDouble_of_nat:
  assumes "n < 2 ^ 53"
  shows "toDouble (real n) = real n"
proof (cases "n = 0")
  case True
  then show ?thesis by (simp add: toDouble_0)
next
  case False
  then have pos: "0 < real n" by simp
  define e where "e = exponent (real n)"
  from exponent_bounds [OF pos] have "pow2 e \<le> real n" unfolding e_def by simp
  also have "real n < pow2 53" using assms unfolding pow2_def
    by (simp add: of_nat_less_iff [of n "2 ^ 53", where ?'a = real, simplified])
  finally have "e < 53" by (rule pow2_less_cancel)
  define k where "k = nat (52 - e)"
  from \<open>e < 53\<close> have k: "e - 52 = - int k" unfolding k_def by simp
  have u: "pow2 (e - 52) = 1 / 2 ^ k"
    unfolding k by (cases "k = 0") (simp_all add: pow2_def)
  have "real n / pow2 (e - 52) = real_of_int (int n * 2 ^ k)"
    unfolding u by simp
  then have "roundHalfEven (real n / pow2 (e - 52)) = int n * 2 ^ k"
    by (simp only: roundHalfEven_of_int)
  then have "toDouble (real n) = real_of_int (int n * 2 ^ k) * (1 / 2 ^ k)"
    using pos by (simp add: toDouble_def Let_def e_def [symmetric] u)
  then show ?thesis by simp
qed

lemma toDouble_le_nat:
  assumes "0 \<le> x" and "x \<le> real n" and "n < 2 ^ 53"
  shows "toDouble x \<le> real n"
  using toDouble_mono [OF assms(1,2)] toDouble_of_nat [OF assms(3)] by simp

lemma toDouble_ge_nat:
  assumes "real n \<le> x" and "n < 2 ^ 53"
  shows "real n \<le> toDouble x"
  using toDouble_mono [of "real n" x] assms(1) toDouble_of_nat [OF assms(2)] by simp

text \<open>A fraction of a natural number: the quotient lies in the unit interval, the product below the number.\<close>

lemma fdiv_unit:
  assumes "0 \<le> a" and "a \<le> b" and "0 < b"
  shows "0 \<le> fdiv a b \<and> fdiv a b \<le> 1"
proof -
  from assms have q: "0 \<le> a / b" "a / b \<le> real 1" by simp_all
  from toDouble_nonneg [OF q(1)] toDouble_le_nat [OF q, simplified] show ?thesis
    by (simp add: fdiv_def)
qed

lemma fmul_unit:
  assumes "0 \<le> d" and "d \<le> 1" and "n < 2 ^ 53"
  shows "0 \<le> fmul d (real n) \<and> fmul d (real n) \<le> real n"
proof -
  from assms(1,2) have p: "0 \<le> d * real n" "d * real n \<le> real n"
    by (simp_all add: mult_left_le_one_le)
  from toDouble_nonneg [OF p(1)] toDouble_le_nat [OF p assms(3)] show ?thesis
    by (simp add: fmul_def)
qed

lemma fraction_of_nat:
  assumes "0 \<le> a" and "a \<le> b" and "0 < b" and "n < 2 ^ 53"
  shows "0 \<le> fmul (fdiv a b) (real n) \<and> fmul (fdiv a b) (real n) \<le> real n"
  using fdiv_unit [OF assms(1-3)] fmul_unit [OF _ _ assms(4)] by blast

section \<open>Properties of the matching engine\<close>




text \<open>The rules that do not throw, taken alone.\<close>

lemma getAgeCompatibility_sym:
  "getAgeCompatibility n1 n2 b1 b2 = getAgeCompatibility n2 n1 b2 b1"
  by (simp add: getAgeCompatibility_def Let_def abs_minus_commute)




text \<open>The rule takes lists: a tag repeated in the first list is counted each time.\<close>

lemma getTemperamentCompatibility_repeated_tag:
  "getTemperamentCompatibility [''calmo'', ''calmo''] [''calmo''] = 2"
  by (simp add: getTemperamentCompatibility_def Let_def)



text \<open>
  The age rule is the one place where the clock is read. Between 20 March and 20 July 2024
  the dog born on 15 June 2020 turns 4 and the dog born on 10 January 2018 stays 6: the
  rule gives 0.7 in March and 1 in July. No call of the score gets as far as this rule.
\<close>

lemma example_ages:
  "years (calculateAge march2024 born2020) = 3"
  "years (calculateAge july2024 born2020) = 4"
  "years (calculateAge march2024 born2018) = 6"
  "years (calculateAge july2024 born2018) = 6"
  by code_simp+

lemma getAgeCompatibility_reads_clock:
  "getAgeCompatibility march2024 march2024 born2020 born2018 = 0.7 \<and>
   getAgeCompatibility july2024 july2024 born2020 born2018 = 1"
  by (simp add: getAgeCompatibility_def Let_def example_ages)





text \<open>
  Claim C6. A dog compared with itself, between owners without address, is to score 85,
  the 100 of the weights less the 15 of the distance. The call returns no score: it
  throws a \<^verbatim>\<open>ReferenceError\<close> in the size rule.
\<close>

theorem self_comparison_throws:
  "calculateCompatibilityScore march2024 march2024
      (exampleDog born2020 [''calmo''] maschio) (exampleDog born2020 [''calmo''] maschio)
      ownerWithoutAddress ownerWithoutAddress = Inl ReferenceError"
  by (simp add: calculateCompatibilityScore_def getSizeCompatibility_def enumObject_def
      typeOnlyImports_def)

text \<open>
  Claim C7. With one owner at 45 N, 9 E and the other without address the distance is to
  add nothing and the other rules are to add up to 85. The call returns no score: it
  throws a \<^verbatim>\<open>ReferenceError\<close> in the size rule.
\<close>

theorem comparison_without_coordinates_throws:
  "addressCoordinates ownerWithoutAddress = None \<and>
   calculateCompatibilityScore march2024 march2024
      (exampleDog born2020 [''calmo''] maschio) (exampleDog born2020 [''calmo''] femmina)
      (ownerAt 45 9) ownerWithoutAddress = Inl ReferenceError"
  by (simp add: calculateCompatibilityScore_def getSizeCompatibility_def enumObject_def
      typeOnlyImports_def addressCoordinates_def ownerWithoutAddress_def)

section \<open>Properties of the triage scorer\<close>

lemma plusNumber_simps:
  "plusNumber None b = None"
  "plusNumber (Some x) None = None"
  "plusNumber (Some x) (Some y) = Some (fadd x y)"
  by (simp_all add: plusNumber_def split: option.splits)

lemma questionScore_eq_doublePoints:
  "questionScore N q r = doublePoints N q (answer r)"
  by (cases "type_q q")
    (auto simp: questionScore_def doublePoints_def positivePhrased_def Let_def
      split: option.splits)

lemma forEachQuestion_eq:
  "forEachQuestion N rs (t, m) q = (addPoints N rs t q, fadd m (weight q))"
  by (simp add: forEachQuestion_def addPoints_def questionScore_eq_doublePoints Let_def
      split: option.splits)

lemma foldl_forEachQuestion:
  "foldl (forEachQuestion N rs) (t, m) qs =
     (foldl (addPoints N rs) t qs, foldl (\<lambda>m q. fadd m (weight q)) m qs)"
  by (induction qs arbitrary: t m) (simp_all add: forEachQuestion_eq)

text \<open>The sum of the weights of the bank is 52, on exact numbers and as the code adds them.\<close>

lemma weights_sum: "sum_list (map weight questions) = 52"
  by (simp add: questions_def)

lemma maxPossibleScore_bank: "foldl (\<lambda>m q. fadd m (weight q)) 0 questions = 52"
  by code_simp

lemma score_eq_doubleScore: "score (calculateTriageScore N rs) = doubleScore N rs"
  by (simp add: calculateTriageScore_def Let_def foldl_forEachQuestion maxPossibleScore_bank
      doubleScore_def doubleTotal_def weights_sum)

text \<open>The band of urgency is read off the score.\<close>

lemma urgencyLevel_of_score:
  "urgencyLevel (calculateTriageScore N rs) =
     (case score (calculateTriageScore N rs) of
        None \<Rightarrow> low
      | Some s \<Rightarrow> if s \<ge> 80 then critical else if s \<ge> 60 then high
                  else if s \<ge> 30 then medium else low)"
  by (simp add: calculateTriageScore_def Let_def isAtLeast_def split: option.splits)

text \<open>Only the first response to each question of the bank is looked at.\<close>

lemma calculateTriageScore_cong:
  assumes "\<forall>q\<in>set questions.
      find (\<lambda>r. questionId r = id_q q) rs = find (\<lambda>r. questionId r = id_q q) rs'"
  shows "calculateTriageScore N rs = calculateTriageScore N rs'"
proof -
  have "foldl (forEachQuestion N rs) (Some 0, 0) questions =
        foldl (forEachQuestion N rs') (Some 0, 0) questions"
    using assms by (intro foldl_cong refl) (simp add: forEachQuestion_def)
  then show ?thesis by (simp add: calculateTriageScore_def)
qed

lemma find_firstPerQuestion:
  assumes "i \<in> set (map id_q questions)"
  shows "find (\<lambda>r. questionId r = i) (firstPerQuestion seen rs) =
     (if i \<in> set seen then None else find (\<lambda>r. questionId r = i) rs)"
proof (induction rs arbitrary: seen)
  case Nil
  then show ?case by simp
next
  case (Cons r rs)
  show ?case
  proof (cases "questionId r = i")
    case True
    with assms show ?thesis by (simp add: Cons.IH)
  next
    case False
    then show ?thesis by (simp add: Cons.IH)
  qed
qed

lemma find_firstPerQuestion_bank:
  assumes "q \<in> set questions"
  shows "find (\<lambda>r. questionId r = id_q q) (firstPerQuestion [] rs) =
         find (\<lambda>r. questionId r = id_q q) rs"
proof -
  from assms have "id_q q \<in> set (map id_q questions)" by simp
  from find_firstPerQuestion [OF this, of "[]" rs] show ?thesis by simp
qed

lemma find_filter_bank:
  assumes "q \<in> set questions"
  shows "find (\<lambda>r. questionId r = id_q q)
           (filter (\<lambda>r. questionId r \<in> set (map id_q questions)) rs) =
         find (\<lambda>r. questionId r = id_q q) rs"
  using assms by (induction rs) auto

text \<open>
  Claim C3, as the code has it. The score is \<open>doubleScore\<close>: the points of the first
  response to each answered question of the bank, by the rules of the claim, added in the
  order of the bank; the total divided by the sum of the weights of all the questions of
  the bank, which is 52; the quotient multiplied by 100 and rounded; each operation
  rounded to a double. It is \<^verbatim>\<open>NaN\<close> when the answer to the scale is not a number.
\<close>

theorem triage_score_is_rounded_percentage_in_doubles:
  "score (calculateTriageScore N rs) = doubleScore N rs \<and>
   sum_list (map weight questions) = 52"
  by (simp add: score_eq_doubleScore weights_sum)

text \<open>
  Pain 7 (sent as a string of digits) and no appetite: 4.9 + 4 points of 52, 17 per cent.
\<close>

theorem triage_score_is_rounded_percentage_in_doubles_witness:
  "doubleScore digitsToNumber
     [respond ''pain_level'' (AString ''7''), respond ''appetite'' (ABoolean False)] = Some 17 \<and>
   score (calculateTriageScore digitsToNumber
     [respond ''pain_level'' (AString ''7''), respond ''appetite'' (ABoolean False)]) = Some 17"
proof -
  let ?rs = "[respond ''pain_level'' (AString ''7''), respond ''appetite'' (ABoolean False)]"
  have d: "doubleScore digitsToNumber ?rs = Some 17"
    by code_simp
  from triage_score_is_rounded_percentage_in_doubles [of digitsToNumber ?rs]
  have "score (calculateTriageScore digitsToNumber ?rs) = doubleScore digitsToNumber ?rs"
    by (rule conjunct1)
  with d show ?thesis by simp
qed

text \<open>
  Claim C3 as stated fails. Vomiting, no mobility and pain 1 have 5 + 6 + 0.7 points of
  52, which is 22.5 per cent and rounds to 23. The code computes a tenth of 1 times 7 as
  0.7000000000000001, the total over 52 as 0.22499999999999998 and its product with 100 as
  22.499999999999996: the score is 22.
\<close>

theorem triage_score_is_not_the_exact_percentage:
  "score (calculateTriageScore digitsToNumber
     [respond ''vomiting'' (ABoolean True), respond ''mobility'' (ABoolean True),
      respond ''pain_level'' (ANumber 1)]) = Some 22 \<and>
   specScore digitsToNumber
     [respond ''vomiting'' (ABoolean True), respond ''mobility'' (ABoolean True),
      respond ''pain_level'' (ANumber 1)] = Some 23"
  by code_simp

text \<open>The points of an answer within the range of its question lie between 0 and the weight.\<close>

lemma indexOf_bleeding:
  assumes "s \<in> set [''Nessuno'', ''Lieve'', ''Moderato'', ''Grave'']"
  shows "0 \<le> indexOf [''Nessuno'', ''Lieve'', ''Moderato'', ''Grave''] s \<and>
         indexOf [''Nessuno'', ''Lieve'', ''Moderato'', ''Grave''] s \<le> 3"
  using assms by auto

lemma weight_is_natural:
  assumes "q \<in> set questions"
  shows "weight q = real (nat \<lfloor>weight q\<rfloor>) \<and> nat \<lfloor>weight q\<rfloor> < 2 ^ 53"
  using assms by (auto simp: questions_def)

lemma points_in_range:
  assumes pain: "\<forall>r. find (\<lambda>r. questionId r = ''pain_level'') rs = Some r \<longrightarrow>
      (\<exists>x. toNumber N (answer r) = Some x \<and> 0 \<le> x \<and> x \<le> 10)"
    and bleeding: "\<forall>r. find (\<lambda>r. questionId r = ''bleeding'') rs = Some r \<longrightarrow>
      (\<exists>s. answer r = AString s \<and> s \<in> set [''Nessuno'', ''Lieve'', ''Moderato'', ''Grave''])"
    and q: "q \<in> set questions"
    and r: "find (\<lambda>r. questionId r = id_q q) rs = Some r"
  shows "\<exists>c. doublePoints N q (answer r) = Some c \<and> 0 \<le> c \<and> c \<le> weight q"
proof -
  consider (yesno) "type_q q = boolean" | (pain) "id_q q = ''pain_level''" "type_q q = scale"
      "weight q = 7"
    | (bleeding) "id_q q = ''bleeding''" "type_q q = multiple" "weight q = 8"
      "options q = Some [''Nessuno'', ''Lieve'', ''Moderato'', ''Grave'']"
    using q by (auto simp: questions_def)
  then show ?thesis
  proof cases
    case yesno
    with q show ?thesis
      by (auto simp: doublePoints_def questions_def)
  next
    case pain
    with r assms(1) obtain x where x: "toNumber N (answer r) = Some x" "0 \<le> x" "x \<le> 10"
      by auto
    from fraction_of_nat [of x 10 7] x(2,3)
    have "0 \<le> fmul (fdiv x 10) 7 \<and> fmul (fdiv x 10) 7 \<le> 7" by simp
    moreover have "doublePoints N q (answer r) = Some (fmul (fdiv x 10) 7)"
      using pain x(1) by (simp add: doublePoints_def)
    ultimately have "doublePoints N q (answer r) = Some (fmul (fdiv x 10) 7) \<and>
        0 \<le> fmul (fdiv x 10) 7 \<and> fmul (fdiv x 10) 7 \<le> weight q"
      using pain by simp
    then show ?thesis by blast
  next
    case bleeding
    with r assms(2) obtain s where s: "answer r = AString s"
        "s \<in> set [''Nessuno'', ''Lieve'', ''Moderato'', ''Grave'']"
      by auto
    define i where "i = indexOf [''Nessuno'', ''Lieve'', ''Moderato'', ''Grave''] s"
    from indexOf_bleeding [OF s(2)] have i: "0 \<le> real_of_int i" "real_of_int i \<le> 3"
      unfolding i_def by linarith+
    from fraction_of_nat [of "real_of_int i" 3 8] i
    have "0 \<le> fmul (fdiv (real_of_int i) 3) 8 \<and> fmul (fdiv (real_of_int i) 3) 8 \<le> 8" by simp
    moreover have "doublePoints N q (answer r) = Some (fmul (fdiv (real_of_int i) 3) 8)"
      using bleeding s(1)
      by (simp add: doublePoints_def i_def del: indexOf.simps)
    ultimately have "doublePoints N q (answer r) = Some (fmul (fdiv (real_of_int i) 3) 8) \<and>
        0 \<le> fmul (fdiv (real_of_int i) 3) 8 \<and> fmul (fdiv (real_of_int i) 3) 8 \<le> weight q"
      using bleeding by simp
    then show ?thesis by blast
  qed
qed

lemma doublePoints_mostSevere:
  assumes "q \<in> set questions"
  shows "doublePoints N q (mostSevere q) = Some (weight q)"
proof -
  have "fmul (fdiv 10 10) 7 = 7" and "fmul (fdiv 3 3) 8 = 8" by code_simp+
  with assms show ?thesis
    by (auto simp: questions_def doublePoints_def mostSevere_def toNumber_def positivePhrased_def)
qed

text \<open>
  The total of the points, added as doubles, between the sum of lower bounds and the sum
  of upper bounds of the points, when the bounds are natural numbers.
\<close>

lemma foldl_addPoints_bounds:
  assumes "\<forall>q\<in>set qs. lo q \<le> hi q \<and>
      (find (\<lambda>r. questionId r = id_q q) rs = None \<longrightarrow> lo q = 0) \<and>
      (\<forall>r. find (\<lambda>r. questionId r = id_q q) rs = Some r \<longrightarrow>
         (\<exists>c. doublePoints N q (answer r) = Some c \<and> real (lo q) \<le> c \<and> c \<le> real (hi q)))"
    and "real A \<le> t" and "t \<le> real W"
    and "W + sum_list (map hi qs) < 2 ^ 53"
  shows "\<exists>t'. foldl (addPoints N rs) (Some t) qs = Some t' \<and>
           real (A + sum_list (map lo qs)) \<le> t' \<and> t' \<le> real (W + sum_list (map hi qs))"
  using assms
proof (induction qs arbitrary: t A W)
  case Nil
  then show ?case by simp
next
  case (Cons q qs)
  from Cons.prems(1) have rest: "\<forall>q\<in>set qs. lo q \<le> hi q \<and>
      (find (\<lambda>r. questionId r = id_q q) rs = None \<longrightarrow> lo q = 0) \<and>
      (\<forall>r. find (\<lambda>r. questionId r = id_q q) rs = Some r \<longrightarrow>
         (\<exists>c. doublePoints N q (answer r) = Some c \<and> real (lo q) \<le> c \<and> c \<le> real (hi q)))"
    by simp
  from Cons.prems(4) have bound: "(W + hi q) + sum_list (map hi qs) < 2 ^ 53"
    by (simp add: add.assoc)
  then have small: "W + hi q < 2 ^ 53" by linarith
  from Cons.prems(2,3) have AW: "A \<le> W" by linarith
  show ?case
  proof (cases "find (\<lambda>r. questionId r = id_q q) rs")
    case None
    then have step: "addPoints N rs (Some t) q = Some t" by (simp add: addPoints_def)
    from None Cons.prems(1) have "lo q = 0" by simp
    moreover from Cons.prems(3) have "t \<le> real (W + hi q)" by simp
    from Cons.IH [OF rest Cons.prems(2) this bound]
    obtain t' where "foldl (addPoints N rs) (Some t) qs = Some t'"
        "real (A + sum_list (map lo qs)) \<le> t'" "t' \<le> real (W + hi q + sum_list (map hi qs))"
      by blast
    ultimately show ?thesis using step by (simp add: add.assoc)
  next
    case (Some r)
    with Cons.prems(1) obtain c where c: "doublePoints N q (answer r) = Some c"
        "real (lo q) \<le> c" "c \<le> real (hi q)" and lh: "lo q \<le> hi q"
      by auto
    have step: "addPoints N rs (Some t) q = Some (toDouble (t + c))"
      using Some c(1) by (simp add: addPoints_def plusNumber_simps fadd_def)
    from Cons.prems(2) c(2) have low: "real (A + lo q) \<le> t + c" by simp
    from Cons.prems(3) c(3) have high: "t + c \<le> real (W + hi q)" by simp
    from low have nonneg: "0 \<le> t + c" by (meson of_nat_0_le_iff order_trans)
    from AW lh small have "A + lo q < 2 ^ 53" by linarith
    from toDouble_ge_nat [OF low this] have l: "real (A + lo q) \<le> toDouble (t + c)" .
    from toDouble_le_nat [OF nonneg high small] have h: "toDouble (t + c) \<le> real (W + hi q)" .
    from Cons.IH [OF rest l h bound]
    obtain t' where "foldl (addPoints N rs) (Some (toDouble (t + c))) qs = Some t'"
        "real (A + lo q + sum_list (map lo qs)) \<le> t'"
        "t' \<le> real (W + hi q + sum_list (map hi qs))"
      by blast
    then show ?thesis using step by (simp add: add.assoc)
  qed
qed

lemma foldl_addPoints_Nil: "foldl (addPoints N []) t qs = t"
  by (induction qs) (simp_all add: addPoints_def)

text \<open>Rounding a percentage.\<close>

lemma Math_round_percent:
  assumes "0 \<le> t" and "t \<le> 52"
  shows "0 \<le> Math_round (fmul (fdiv t 52) 100) \<and> Math_round (fmul (fdiv t 52) 100) \<le> 100"
proof -
  from fraction_of_nat [of t 52 100] assms
  have "0 \<le> fmul (fdiv t 52) 100" "fmul (fdiv t 52) 100 \<le> 100" by simp_all
  then show ?thesis unfolding Math_round_def by (simp add: floor_le_iff le_floor_iff)
qed

text \<open>
  Claim C9, as the code has it. The score lies between 0 and 100 when the first answer to
  the pain scale is a number from 0 to 10 and the first answer about bleeding is one of
  its four options; the other questions score 0 or their weight whatever the answer.
  When every question of the bank is answered in the most severe way the score is 100 and
  the urgency is critical. Without responses the score is 0 and the urgency is low.
\<close>

theorem triage_score_range:
  "((\<forall>r. find (\<lambda>r. questionId r = ''pain_level'') rs = Some r \<longrightarrow>
        (\<exists>x. toNumber N (answer r) = Some x \<and> 0 \<le> x \<and> x \<le> 10)) \<and>
    (\<forall>r. find (\<lambda>r. questionId r = ''bleeding'') rs = Some r \<longrightarrow>
        (\<exists>s. answer r = AString s \<and> s \<in> set [''Nessuno'', ''Lieve'', ''Moderato'', ''Grave''])) \<longrightarrow>
      (\<exists>s. score (calculateTriageScore N rs) = Some s \<and> 0 \<le> s \<and> s \<le> 100)) \<and>
   ((\<forall>q\<in>set questions.
        \<exists>r. find (\<lambda>r. questionId r = id_q q) rs = Some r \<and> answer r = mostSevere q) \<longrightarrow>
      score (calculateTriageScore N rs) = Some 100 \<and>
      urgencyLevel (calculateTriageScore N rs) = critical) \<and>
   score (calculateTriageScore N []) = Some 0 \<and>
   urgencyLevel (calculateTriageScore N []) = low"
proof (intro conjI impI)
  assume inrange:
    "(\<forall>r. find (\<lambda>r. questionId r = ''pain_level'') rs = Some r \<longrightarrow>
        (\<exists>x. toNumber N (answer r) = Some x \<and> 0 \<le> x \<and> x \<le> 10)) \<and>
     (\<forall>r. find (\<lambda>r. questionId r = ''bleeding'') rs = Some r \<longrightarrow>
        (\<exists>s. answer r = AString s \<and> s \<in> set [''Nessuno'', ''Lieve'', ''Moderato'', ''Grave'']))"
  let ?hi = "\<lambda>q. nat \<lfloor>weight q\<rfloor>"
  let ?lo = "\<lambda>q::TriageQuestion. 0::nat"
  have "\<forall>q\<in>set questions. ?lo q \<le> ?hi q \<and>
      (find (\<lambda>r. questionId r = id_q q) rs = None \<longrightarrow> ?lo q = 0) \<and>
      (\<forall>r. find (\<lambda>r. questionId r = id_q q) rs = Some r \<longrightarrow>
         (\<exists>c. doublePoints N q (answer r) = Some c \<and> real (?lo q) \<le> c \<and> c \<le> real (?hi q)))"
  proof (intro ballI conjI allI impI)
    fix q r
    assume q: "q \<in> set questions" and r: "find (\<lambda>r. questionId r = id_q q) rs = Some r"
    from points_in_range [OF conjunct1 [OF inrange] conjunct2 [OF inrange] q r]
      weight_is_natural [OF q]
    show "\<exists>c. doublePoints N q (answer r) = Some c \<and> real (?lo q) \<le> c \<and> c \<le> real (?hi q)"
      by simp
  qed simp_all
  from foldl_addPoints_bounds [OF this, of 0 0 0]
  obtain t where t: "doubleTotal N rs questions = Some t" "0 \<le> t" "t \<le> 52"
    by (auto simp: doubleTotal_def questions_def)
  from Math_round_percent [OF t(2,3)] t(1)
  show "\<exists>s. score (calculateTriageScore N rs) = Some s \<and> 0 \<le> s \<and> s \<le> 100"
    by (simp add: score_eq_doubleScore doubleScore_def weights_sum)
next
  assume worst: "\<forall>q\<in>set questions.
      \<exists>r. find (\<lambda>r. questionId r = id_q q) rs = Some r \<and> answer r = mostSevere q"
  let ?hi = "\<lambda>q. nat \<lfloor>weight q\<rfloor>"
  have "\<forall>q\<in>set questions. ?hi q \<le> ?hi q \<and>
      (find (\<lambda>r. questionId r = id_q q) rs = None \<longrightarrow> ?hi q = 0) \<and>
      (\<forall>r. find (\<lambda>r. questionId r = id_q q) rs = Some r \<longrightarrow>
         (\<exists>c. doublePoints N q (answer r) = Some c \<and> real (?hi q) \<le> c \<and> c \<le> real (?hi q)))"
  proof (intro ballI conjI allI impI)
    fix q r
    assume q: "q \<in> set questions" and r: "find (\<lambda>r. questionId r = id_q q) rs = Some r"
    with worst have "answer r = mostSevere q" by auto
    with doublePoints_mostSevere [OF q, of N] weight_is_natural [OF q]
    show "\<exists>c. doublePoints N q (answer r) = Some c \<and> real (?hi q) \<le> c \<and> c \<le> real (?hi q)"
      by simp
  next
    fix q
    assume "q \<in> set questions" and "find (\<lambda>r. questionId r = id_q q) rs = None"
    with worst show "?hi q = 0" by auto
  qed simp
  from foldl_addPoints_bounds [OF this, of 0 0 0]
  have total: "doubleTotal N rs questions = Some 52"
    by (auto simp: doubleTotal_def questions_def)
  have "Math_round (fmul (fdiv 52 52) 100) = 100" by code_simp
  with total show full: "score (calculateTriageScore N rs) = Some 100"
    by (simp add: score_eq_doubleScore doubleScore_def weights_sum)
  then show "urgencyLevel (calculateTriageScore N rs) = critical"
    by (simp add: urgencyLevel_of_score)
next
  have "Math_round (fmul (fdiv 0 52) 100) = 0" by code_simp
  then show zero: "score (calculateTriageScore N []) = Some 0"
    by (simp add: score_eq_doubleScore doubleScore_def doubleTotal_def foldl_addPoints_Nil
        weights_sum)
  then show "urgencyLevel (calculateTriageScore N []) = low"
    by (simp add: urgencyLevel_of_score)
qed

text \<open>
  Pain 7 and light bleeding score 15. The list \<open>worstCase\<close> gives each question its most
  severe answer and scores 100, critical.
\<close>

theorem triage_score_range_witness:
  "find (\<lambda>r. questionId r = ''pain_level'')
     [respond ''pain_level'' (ANumber 7), respond ''bleeding'' (AString ''Lieve'')] =
     Some (respond ''pain_level'' (ANumber 7)) \<and>
   toNumber digitsToNumber (answer (respond ''pain_level'' (ANumber 7))) = Some 7 \<and>
   find (\<lambda>r. questionId r = ''bleeding'')
     [respond ''pain_level'' (ANumber 7), respond ''bleeding'' (AString ''Lieve'')] =
     Some (respond ''bleeding'' (AString ''Lieve'')) \<and>
   score (calculateTriageScore digitsToNumber
     [respond ''pain_level'' (ANumber 7), respond ''bleeding'' (AString ''Lieve'')]) = Some 15 \<and>
   (\<exists>s. score (calculateTriageScore digitsToNumber
     [respond ''pain_level'' (ANumber 7), respond ''bleeding'' (AString ''Lieve'')]) = Some s \<and>
     0 \<le> s \<and> s \<le> 100) \<and>
   map (\<lambda>q. map_option answer (find (\<lambda>r. questionId r = id_q q) worstCase)) questions =
     map (\<lambda>q. Some (mostSevere q)) questions \<and>
   score (calculateTriageScore digitsToNumber worstCase) = Some 100 \<and>
   urgencyLevel (calculateTriageScore digitsToNumber worstCase) = critical"
proof -
  let ?rs = "[respond ''pain_level'' (ANumber 7), respond ''bleeding'' (AString ''Lieve'')]"
  have f1: "find (\<lambda>r. questionId r = ''pain_level'') ?rs = Some (respond ''pain_level'' (ANumber 7))"
    by (simp add: respond_def)
  have n1: "toNumber digitsToNumber (answer (respond ''pain_level'' (ANumber 7))) = Some 7"
    by (simp add: respond_def toNumber_def)
  have f2: "find (\<lambda>r. questionId r = ''bleeding'') ?rs = Some (respond ''bleeding'' (AString ''Lieve''))"
    by (simp add: respond_def)
  have a2: "answer (respond ''bleeding'' (AString ''Lieve'')) = AString ''Lieve''"
    by (simp add: respond_def)
  have val: "score (calculateTriageScore digitsToNumber ?rs) = Some 15"
    by code_simp
  have worst: "map (\<lambda>q. map_option answer (find (\<lambda>r. questionId r = id_q q) worstCase)) questions =
      map (\<lambda>q. Some (mostSevere q)) questions"
    by (simp add: questions_def worstCase_def respond_def mostSevere_def positivePhrased_def)
  then have worst': "\<forall>q\<in>set questions.
      \<exists>r. find (\<lambda>r. questionId r = id_q q) worstCase = Some r \<and> answer r = mostSevere q"
    by auto
  have range: "\<exists>s. score (calculateTriageScore digitsToNumber ?rs) = Some s \<and> 0 \<le> s \<and> s \<le> 100"
    using triage_score_range [of ?rs digitsToNumber] f1 n1 f2 a2 by auto
  have top: "score (calculateTriageScore digitsToNumber worstCase) = Some 100 \<and>
      urgencyLevel (calculateTriageScore digitsToNumber worstCase) = critical"
    using triage_score_range [of worstCase digitsToNumber] worst' by blast
  from f1 n1 f2 val range worst top show ?thesis by blast
qed

text \<open>
  Claim C9 as stated fails: nothing keeps an answer within the range of its question. A
  pain level of 100 alone scores 135, and an answer about bleeding that is none of the
  options has position \<open>-1\<close> and scores \<open>-5\<close>.
\<close>

theorem triage_score_leaves_the_range:
  "score (calculateTriageScore digitsToNumber [respond ''pain_level'' (ANumber 100)]) = Some 135 \<and>
   score (calculateTriageScore digitsToNumber [respond ''bleeding'' (AString ''Sconosciuto'')]) =
     Some (- 5)"
  by code_simp

text \<open>
  Claim C10. The result is that of the list cut down to the first response to each
  question of the bank; in particular responses to other questions change nothing.
\<close>

theorem only_first_responses_to_bank_questions_count:
  "calculateTriageScore N rs = calculateTriageScore N (firstPerQuestion [] rs) \<and>
   calculateTriageScore N (filter (\<lambda>r. questionId r \<in> set (map id_q questions)) rs) =
     calculateTriageScore N rs"
proof
  show "calculateTriageScore N rs = calculateTriageScore N (firstPerQuestion [] rs)"
    by (rule calculateTriageScore_cong) (intro ballI find_firstPerQuestion_bank [symmetric])
next
  show "calculateTriageScore N (filter (\<lambda>r. questionId r \<in> set (map id_q questions)) rs) =
      calculateTriageScore N rs"
    by (rule calculateTriageScore_cong) (intro ballI find_filter_bank)
qed

text \<open>
  A response to an unknown question and a second answer to the pain scale are dropped:
  the score is that of pain 5 and vomiting, 16.
\<close>

theorem only_first_responses_to_bank_questions_count_witness:
  "firstPerQuestion []
     [respond ''weight_loss'' (ABoolean True), respond ''pain_level'' (ANumber 5),
      respond ''pain_level'' (ANumber 10), respond ''vomiting'' (ABoolean True)] =
     [respond ''pain_level'' (ANumber 5), respond ''vomiting'' (ABoolean True)] \<and>
   calculateTriageScore digitsToNumber
     [respond ''weight_loss'' (ABoolean True), respond ''pain_level'' (ANumber 5),
      respond ''pain_level'' (ANumber 10), respond ''vomiting'' (ABoolean True)] =
   calculateTriageScore digitsToNumber
     [respond ''pain_level'' (ANumber 5), respond ''vomiting'' (ABoolean True)] \<and>
   score (calculateTriageScore digitsToNumber
     [respond ''pain_level'' (ANumber 5), respond ''vomiting'' (ABoolean True)]) = Some 16"
proof -
  let ?rs = "[respond ''weight_loss'' (ABoolean True), respond ''pain_level'' (ANumber 5),
      respond ''pain_level'' (ANumber 10), respond ''vomiting'' (ABoolean True)]"
  have first: "firstPerQuestion [] ?rs =
      [respond ''pain_level'' (ANumber 5), respond ''vomiting'' (ABoolean True)]"
    by (simp add: questions_def respond_def)
  have val: "score (calculateTriageScore digitsToNumber
      [respond ''pain_level'' (ANumber 5), respond ''vomiting'' (ABoolean True)]) = Some 16"
    by code_simp
  from only_first_responses_to_bank_questions_count [of digitsToNumber ?rs]
  have "calculateTriageScore digitsToNumber ?rs =
      calculateTriageScore digitsToNumber (firstPerQuestion [] ?rs)"
    by (rule conjunct1)
  with first val show ?thesis by simp
qed

end
